theory Spec2Isabelle
  imports Complex_Main
begin

section \<open>Strings of the JavaScript runtime\<close>

text \<open>
  A JavaScript string is modelled as a \<open>string\<close>: a list of code units, restricted to
  U+0000..U+00FF. The functions below are the \<open>String.prototype\<close> methods the two source
  files call, each on the arguments it is called with.
\<close>

definition startsWith :: "string \<Rightarrow> string \<Rightarrow> bool" where
  "startsWith s p = (take (length p) s = p)"

definition endsWith :: "string \<Rightarrow> string \<Rightarrow> bool" where
  "endsWith s p = (length p \<le> length s \<and> drop (length s - length p) s = p)"

fun includes_str :: "string \<Rightarrow> string \<Rightarrow> bool" where
  "includes_str [] p = (p = [])"
| "includes_str (c # cs) p = (startsWith (c # cs) p \<or> includes_str cs p)"

text \<open>\<open>s.slice(0, -1)\<close> and \<open>s.slice(0, s.length - 1)\<close>: all but the last code unit.\<close>

definition slice_init :: "string \<Rightarrow> string" where
  "slice_init s = take (length s - 1) s"

text \<open>
  \<open>s.split('\n')\<close>: the pieces between the separators, so a string with \<open>n\<close> line feeds
  gives \<open>n + 1\<close> pieces, and the empty string gives one empty piece.
\<close>

fun split_on :: "char \<Rightarrow> string \<Rightarrow> string list" where
  "split_on sep [] = [[]]"
| "split_on sep (c # cs) =
     (if c = sep then [] # split_on sep cs
      else (case split_on sep cs of
              [] \<Rightarrow> [[c]]
            | piece # pieces \<Rightarrow> (c # piece) # pieces))"

text \<open>
  \<open>s.trim()\<close> strips white space and line terminators at both ends: tab, line feed,
  vertical tab, form feed, carriage return, space and no-break space are the ones below
  U+0100.
\<close>

definition is_js_space :: "char \<Rightarrow> bool" where
  "is_js_space c = (c \<in> set [CHR 0x09, CHR 0x0A, CHR 0x0B, CHR 0x0C, CHR 0x0D, CHR 0x20, CHR 0xA0])"

definition trim :: "string \<Rightarrow> string" where
  "trim s = rev (dropWhile is_js_space (rev (dropWhile is_js_space s)))"

section \<open>JSON values\<close>

text \<open>
  The values \<open>JSON.parse\<close> returns. An object keeps its members in source order; a key
  written twice keeps the later value, which \<open>js_prop\<close> reads. The value \<open>undefined\<close> is
  \<open>None\<close> of \<open>json option\<close>. Numbers are exact rationals.
\<close>

datatype json =
    JNull
  | JBool bool
  | JNumber rat
  | JString string
  | JArray "json list"
  | JObject "(string \<times> json) list"

datatype js_error = SyntaxError | TypeError | NetworkError

text \<open>
  \<open>v.k\<close> for a key \<open>k\<close> that is no built-in property (the program reads \<open>message\<close>,
  \<open>content\<close>, \<open>done\<close>, \<open>choices\<close>, \<open>delta\<close> and the request fields only): the member of an
  object, \<open>undefined\<close> on a number, string, boolean or array.
\<close>

fun js_prop :: "json \<Rightarrow> string \<Rightarrow> json option" where
  "js_prop (JObject members) k = map_of (rev members) k"
| "js_prop v k = None"

text \<open>Reading a property of \<open>null\<close> throws a TypeError.\<close>

definition get_prop :: "json \<Rightarrow> string \<Rightarrow> js_error + json option" where
  "get_prop v k = (if v = JNull then Inl TypeError else Inr (js_prop v k))"

text \<open>Optional chaining \<open>x?.k\<close>: \<open>undefined\<close> when \<open>x\<close> is \<open>undefined\<close> or \<open>null\<close>.\<close>

definition opt_chain :: "json option \<Rightarrow> string \<Rightarrow> json option" where
  "opt_chain x k = (case x of None \<Rightarrow> None | Some v \<Rightarrow> js_prop v k)"

text \<open>Truthiness: \<open>undefined\<close>, \<open>null\<close>, \<open>false\<close>, \<open>0\<close> and the empty string are falsy.\<close>

fun truthy :: "json \<Rightarrow> bool" where
  "truthy JNull = False"
| "truthy (JBool b) = b"
| "truthy (JNumber n) = (n \<noteq> 0)"
| "truthy (JString s) = (s \<noteq> [])"
| "truthy (JArray xs) = True"
| "truthy (JObject members) = True"

definition truthy_opt :: "json option \<Rightarrow> bool" where
  "truthy_opt x = (case x of None \<Rightarrow> False | Some v \<Rightarrow> truthy v)"

text \<open>\<open>x || d\<close>.\<close>

definition js_or :: "json option \<Rightarrow> json \<Rightarrow> json" where
  "js_or x d = (case x of None \<Rightarrow> d | Some v \<Rightarrow> if truthy v then v else d)"

text \<open>\<open>x ?? d\<close>.\<close>

definition js_nullish :: "json option \<Rightarrow> json \<Rightarrow> json" where
  "js_nullish x d = (case x of None \<Rightarrow> d | Some v \<Rightarrow> if v = JNull then d else v)"

section \<open>A model of JSON.parse\<close>

text \<open>
  \<open>JSON.parse\<close> belongs to the runtime. The functions of the program take it as a
  parameter \<open>parse\<close> (\<open>None\<close> when it throws a SyntaxError), and every general theorem
  holds for any such function. \<open>JSON_parse\<close> below is a recursive-descent parser of the JSON
  grammar, used where a concrete record has to be read. The fuel of \<open>parse_value\<close> bounds
  the recursion, that is the nesting of values and the members in a row; the length of
  the text is given as fuel, which is more than the calls a text of that length can
  need.
\<close>

definition is_json_ws :: "char \<Rightarrow> bool" where
  "is_json_ws c = (c \<in> set [CHR 0x20, CHR 0x09, CHR 0x0A, CHR 0x0D])"

definition skip_ws :: "string \<Rightarrow> string" where
  "skip_ws s = dropWhile is_json_ws s"

definition digit_val :: "char \<Rightarrow> int option" where
  "digit_val c =
     (let n = of_char c :: int in if 48 \<le> n \<and> n \<le> 57 then Some (n - 48) else None)"

definition hex_val :: "char \<Rightarrow> int option" where
  "hex_val c =
     (let n = of_char c :: int in
      if 48 \<le> n \<and> n \<le> 57 then Some (n - 48)
      else if 65 \<le> n \<and> n \<le> 70 then Some (n - 55)
      else if 97 \<le> n \<and> n \<le> 102 then Some (n - 87)
      else None)"

text \<open>The digits at the front of a text, and the number they write.\<close>

definition take_digits :: "string \<Rightarrow> string" where
  "take_digits s = takeWhile (\<lambda>c. digit_val c \<noteq> None) s"

definition digits_val :: "string \<Rightarrow> int" where
  "digits_val ds = foldl (\<lambda>acc c. 10 * acc + (case digit_val c of Some d \<Rightarrow> d | None \<Rightarrow> 0)) 0 ds"

text \<open>
  A number: an optional minus, an integer part with no leading zero, an optional
  fraction, an optional exponent.
\<close>

definition parse_number :: "string \<Rightarrow> (rat \<times> string) option" where
  "parse_number s =
     (let neg = (case s of [] \<Rightarrow> False | c # _ \<Rightarrow> c = CHR ''-'');
          s1 = (if neg then tl s else s);
          ip = take_digits s1;
          s2 = drop (length ip) s1
      in if ip = [] \<or> (length ip > 1 \<and> hd ip = CHR ''0'') then None
         else
           let has_frac = (case s2 of [] \<Rightarrow> False | c # _ \<Rightarrow> c = CHR ''.'');
               fp = (if has_frac then take_digits (tl s2) else []);
               s3 = (if has_frac then drop (length fp) (tl s2) else s2)
           in if has_frac \<and> fp = [] then None
              else
                let has_exp = (case s3 of [] \<Rightarrow> False | c # _ \<Rightarrow> c = CHR ''e'' \<or> c = CHR ''E'');
                    s4 = (if has_exp then tl s3 else s3);
                    eneg = (has_exp \<and> (case s4 of [] \<Rightarrow> False | c # _ \<Rightarrow> c = CHR ''-''));
                    esign = (has_exp \<and> (case s4 of [] \<Rightarrow> False | c # _ \<Rightarrow> c = CHR ''-'' \<or> c = CHR ''+''));
                    s5 = (if esign then tl s4 else s4);
                    ep = (if has_exp then take_digits s5 else []);
                    s6 = (if has_exp then drop (length ep) s5 else s3)
                in if has_exp \<and> ep = [] then None
                   else
                     let mant = of_int (digits_val (ip @ fp)) / (10 ^ length fp) :: rat;
                         scaled = (if eneg then mant / (10 ^ nat (digits_val ep))
                                   else mant * (10 ^ nat (digits_val ep)))
                     in Some (if neg then - scaled else scaled, s6))"

text \<open>
  The characters of a string after its opening quote, up to the closing one. A control
  character is refused; \<open>\uXXXX\<close> is read when the code unit is below U+0100.
\<close>

definition unescape :: "char \<Rightarrow> char option" where
  "unescape e =
     (if e = CHR 0x22 then Some (CHR 0x22)
      else if e = CHR 0x5C then Some (CHR 0x5C)
      else if e = CHR ''/'' then Some (CHR ''/'')
      else if e = CHR ''b'' then Some (CHR 0x08)
      else if e = CHR ''f'' then Some (CHR 0x0C)
      else if e = CHR ''n'' then Some (CHR 0x0A)
      else if e = CHR ''r'' then Some (CHR 0x0D)
      else if e = CHR ''t'' then Some (CHR 0x09)
      else None)"

definition unicode_escape :: "string \<Rightarrow> char option" where
  "unicode_escape hs =
     (case map hex_val hs of
        [Some a, Some b, Some c, Some d] \<Rightarrow>
          if a = 0 \<and> b = 0 then Some (char_of (16 * c + d)) else None
      | _ \<Rightarrow> None)"

fun parse_chars :: "string \<Rightarrow> (string \<times> string) option" where
  "parse_chars [] = None"
| "parse_chars (c # cs) =
     (if c = CHR 0x22 then Some ([], cs)
      else if c = CHR 0x5C then
        (case cs of
           [] \<Rightarrow> None
         | e # r \<Rightarrow>
             if e = CHR ''u'' then
               (case unicode_escape (take 4 r) of
                  None \<Rightarrow> None
                | Some ch \<Rightarrow>
                    (case parse_chars (drop 4 r) of
                       None \<Rightarrow> None
                     | Some (str, rest) \<Rightarrow> Some (ch # str, rest)))
             else
               (case unescape e of
                  None \<Rightarrow> None
                | Some ch \<Rightarrow>
                    (case parse_chars r of
                       None \<Rightarrow> None
                     | Some (str, rest) \<Rightarrow> Some (ch # str, rest))))
      else if (of_char c :: int) < 32 then None
      else
        (case parse_chars cs of
           None \<Rightarrow> None
         | Some (str, rest) \<Rightarrow> Some (c # str, rest)))"

text \<open>
  \<open>parse_value\<close> reads one value at the front of a text that starts with no white space;
  \<open>parse_elements\<close> and \<open>parse_members\<close> read the rest of an array or object after its
  opening bracket.
\<close>

fun parse_value :: "nat \<Rightarrow> string \<Rightarrow> (json \<times> string) option"
  and parse_elements :: "nat \<Rightarrow> string \<Rightarrow> (json list \<times> string) option"
  and parse_members :: "nat \<Rightarrow> string \<Rightarrow> ((string \<times> json) list \<times> string) option"
where
  "parse_value 0 s = None"
| "parse_value (Suc n) s =
     (case s of
        [] \<Rightarrow> None
      | c # cs \<Rightarrow>
          if c = CHR 0x22 then
            (case parse_chars cs of
               None \<Rightarrow> None
             | Some (str, rest) \<Rightarrow> Some (JString str, rest))
          else if c = CHR ''['' then
            (if (case skip_ws cs of [] \<Rightarrow> False | d # _ \<Rightarrow> d = CHR '']'')
             then Some (JArray [], tl (skip_ws cs))
             else (case parse_elements n (skip_ws cs) of
                     None \<Rightarrow> None
                   | Some (xs, rest) \<Rightarrow> Some (JArray xs, rest)))
          else if c = CHR ''{'' then
            (if (case skip_ws cs of [] \<Rightarrow> False | d # _ \<Rightarrow> d = CHR ''}'')
             then Some (JObject [], tl (skip_ws cs))
             else (case parse_members n (skip_ws cs) of
                     None \<Rightarrow> None
                   | Some (ms, rest) \<Rightarrow> Some (JObject ms, rest)))
          else if startsWith s ''true'' then Some (JBool True, drop 4 s)
          else if startsWith s ''false'' then Some (JBool False, drop 5 s)
          else if startsWith s ''null'' then Some (JNull, drop 4 s)
          else
            (case parse_number s of
               None \<Rightarrow> None
             | Some (q, rest) \<Rightarrow> Some (JNumber q, rest)))"
| "parse_elements 0 s = None"
| "parse_elements (Suc n) s =
     (case parse_value n s of
        None \<Rightarrow> None
      | Some (v, rest) \<Rightarrow>
          (case skip_ws rest of
             [] \<Rightarrow> None
           | c # cs \<Rightarrow>
               if c = CHR '']'' then Some ([v], cs)
               else if c = CHR '','' then
                 (case parse_elements n (skip_ws cs) of
                    None \<Rightarrow> None
                  | Some (vs, rest') \<Rightarrow> Some (v # vs, rest'))
               else None))"
| "parse_members 0 s = None"
| "parse_members (Suc n) s =
     (case s of
        [] \<Rightarrow> None
      | q # s1 \<Rightarrow>
          if q \<noteq> CHR 0x22 then None
          else
            (case parse_chars s1 of
               None \<Rightarrow> None
             | Some (k, s2) \<Rightarrow>
                 (case skip_ws s2 of
                    [] \<Rightarrow> None
                  | colon # s3 \<Rightarrow>
                      if colon \<noteq> CHR '':'' then None
                      else
                        (case parse_value n (skip_ws s3) of
                           None \<Rightarrow> None
                         | Some (v, rest) \<Rightarrow>
                             (case skip_ws rest of
                                [] \<Rightarrow> None
                              | c # cs \<Rightarrow>
                                  if c = CHR ''}'' then Some ([(k, v)], cs)
                                  else if c = CHR '','' then
                                    (case parse_members n (skip_ws cs) of
                                       None \<Rightarrow> None
                                     | Some (ms, rest') \<Rightarrow> Some ((k, v) # ms, rest'))
                                  else None)))))"

definition JSON_parse :: "string \<Rightarrow> json option" where
  "JSON_parse s =
     (case parse_value (Suc (length s)) (skip_ws s) of
        None \<Rightarrow> None
      | Some (v, rest) \<Rightarrow> if skip_ws rest = [] then Some v else None)"

section \<open>The server-side relay: \<open>requestOllama\<close>\<close>

subsection \<open>Configuration and the outbound request\<close>

text \<open>
  \<open>serverConfig\<close> (from \<open>getServerSideConfig\<close>) and the constants \<open>Ollama.ExampleEndpoint\<close>
  and \<open>Ollama.ChatPath\<close> are declared outside the two source files: they are parameters.
\<close>

record server_config =
  cfg_ollamaUrl :: "string option"
  cfg_ollamaApiKey :: "string option"

record ollama_consts =
  ExampleEndpoint :: string
  ChatPath :: string

text \<open>
  \<open>serverConfig.ollamaUrl || Ollama.ExampleEndpoint\<close>, the scheme prefix when the base has no
  \<open>://\<close>, then the removal of one trailing slash.
\<close>

definition server_baseUrl :: "ollama_consts \<Rightarrow> server_config \<Rightarrow> string" where
  "server_baseUrl Ollama serverConfig =
     (let b0 = (case cfg_ollamaUrl serverConfig of
                  None \<Rightarrow> ExampleEndpoint Ollama
                | Some u \<Rightarrow> if u = [] then ExampleEndpoint Ollama else u);
          b1 = (if \<not> includes_str b0 ''://'' then ''http://'' @ b0 else b0);
          b2 = (if endsWith b1 ''/'' then slice_init b1 else b1)
      in b2)"

definition fetchUrl :: "ollama_consts \<Rightarrow> server_config \<Rightarrow> string" where
  "fetchUrl Ollama serverConfig = server_baseUrl Ollama serverConfig @ ''/'' @ ChatPath Ollama"

text \<open>
  \<open>ollamaRequest\<close>: the backend request built from the parsed body of the inbound request.
  A field the body does not have is \<open>undefined\<close>. Reading \<open>requestBody.model\<close> throws when
  the body is \<open>null\<close>.
\<close>

record ollama_options =
  opt_temperature :: "json option"
  opt_top_p :: "json option"
  opt_num_predict :: "json option"

record ollama_request =
  req_model :: "json option"
  req_messages :: "json option"
  req_stream :: json
  req_options :: ollama_options

definition ollamaRequest :: "json \<Rightarrow> js_error + ollama_request" where
  "ollamaRequest requestBody =
     (if requestBody = JNull then Inl TypeError
      else Inr \<lparr> req_model = js_prop requestBody ''model'',
                 req_messages = js_prop requestBody ''messages'',
                 req_stream = js_nullish (js_prop requestBody ''stream'') (JBool True),
                 req_options = \<lparr> opt_temperature = js_prop requestBody ''temperature'',
                                 opt_top_p = js_prop requestBody ''top_p'',
                                 opt_num_predict = js_prop requestBody ''max_tokens'' \<rparr> \<rparr>)"

subsection \<open>The streaming path\<close>

text \<open>
  \<open>openAIChunk\<close>: the fields that depend on the backend record. Its \<open>id\<close> and \<open>created\<close> are
  readings of the clock and its \<open>object\<close> tag and choice index are constants; \<open>chunk_json\<close>
  gives the whole object as it reads on the wire, for given clock readings.
\<close>

record openai_chunk =
  chunk_model :: "json option"
  delta_content :: json
  finish_reason :: "string option"

definition chunk_json :: "string \<Rightarrow> rat \<Rightarrow> openai_chunk \<Rightarrow> json" where
  "chunk_json ident created c =
     JObject
       ([(''id'', JString ident),
         (''object'', JString ''chat.completion.chunk''),
         (''created'', JNumber created)]
        @ (case chunk_model c of None \<Rightarrow> [] | Some m \<Rightarrow> [(''model'', m)])
        @ [(''choices'',
            JArray
              [JObject
                 [(''index'', JNumber 0),
                  (''delta'', JObject [(''content'', delta_content c)]),
                  (''finish_reason'',
                   (case finish_reason c of None \<Rightarrow> JNull | Some r \<Rightarrow> JString r))]])])"

text \<open>
  What the stream's \<open>start\<close> does to its output controller, in order: \<open>Enqueue_data c\<close> is
  \<open>controller.enqueue\<close> of \<open>data: \<close> followed by the JSON text of the chunk and a blank
  line, \<open>Enqueue_done\<close> is \<open>controller.enqueue\<close> of the line \<open>data: [DONE]\<close>,
  \<open>Log_parse_error\<close> is the \<open>console.error\<close> of the inner \<open>catch\<close>, \<open>Close_stream\<close> is
  \<open>controller.close()\<close> and \<open>Error_stream\<close> is the outer \<open>catch\<close>
  (\<open>console.error\<close>, then \<open>controller.error\<close>).
\<close>

datatype stream_effect =
    Enqueue_data openai_chunk
  | Enqueue_done
  | Log_parse_error
  | Close_stream
  | Error_stream

text \<open>
  The body of the inner \<open>try\<close> for one line, up to the chunk it enqueues: \<open>None\<close> when
  \<open>JSON.parse\<close> throws or when \<open>data.message\<close> is read of \<open>null\<close>, else the chunk and
  whether \<open>data.done\<close> is truthy.
\<close>

definition convert_line ::
  "(string \<Rightarrow> json option) \<Rightarrow> json option \<Rightarrow> string \<Rightarrow> (openai_chunk \<times> bool) option"
where
  "convert_line parse model line =
     (case parse line of
        None \<Rightarrow> None
      | Some data \<Rightarrow>
          (case get_prop data ''message'' of
             Inl e \<Rightarrow> None
           | Inr message \<Rightarrow>
               let is_done = truthy_opt (js_prop data ''done'')
               in Some (\<lparr> chunk_model = model,
                           delta_content = js_or (opt_chain message ''content'') (JString []),
                           finish_reason = (if is_done then Some ''stop'' else None) \<rparr>,
                        is_done)))"

text \<open>
  The \<open>for\<close> loop over the lines of one chunk. Its \<open>break\<close> after the \<open>[DONE]\<close> line leaves
  this loop only.
\<close>

fun process_lines ::
  "(string \<Rightarrow> json option) \<Rightarrow> json option \<Rightarrow> string list \<Rightarrow> stream_effect list"
where
  "process_lines parse model [] = []"
| "process_lines parse model (line # rest) =
     (case convert_line parse model line of
        None \<Rightarrow> Log_parse_error # process_lines parse model rest
      | Some (c, is_done) \<Rightarrow>
          Enqueue_data c # (if is_done then [Enqueue_done] else process_lines parse model rest))"

text \<open>
  \<open>chunk.split('\n').filter(line => line.trim())\<close>. A chunk is the text the decoder returns
  for one \<open>reader.read()\<close>.
\<close>

definition chunk_lines :: "string \<Rightarrow> string list" where
  "chunk_lines chunk = filter (\<lambda>line. trim line \<noteq> []) (split_on (CHR 0x0A) chunk)"

definition process_chunk ::
  "(string \<Rightarrow> json option) \<Rightarrow> json option \<Rightarrow> string \<Rightarrow> stream_effect list"
where
  "process_chunk parse model chunk = process_lines parse model (chunk_lines chunk)"

text \<open>
  The \<open>while (true)\<close> loop over \<open>reader.read()\<close>. The body of the backend response is the
  chunks it delivers and how it ends: \<open>done\<close>, or a rejected read.
\<close>

datatype stream_end = End_of_stream | Read_failure

fun read_loop ::
  "(string \<Rightarrow> json option) \<Rightarrow> json option \<Rightarrow> string list \<Rightarrow> stream_end \<Rightarrow> stream_effect list"
where
  "read_loop parse model [] End_of_stream = [Close_stream]"
| "read_loop parse model [] Read_failure = [Error_stream]"
| "read_loop parse model (chunk # chunks) ending =
     process_chunk parse model chunk @ read_loop parse model chunks ending"

text \<open>\<open>start(controller)\<close>: a response with no body closes the stream at once.\<close>

definition stream_start ::
  "(string \<Rightarrow> json option) \<Rightarrow> json option \<Rightarrow> (string list \<times> stream_end) option
     \<Rightarrow> stream_effect list"
where
  "stream_start parse model res_body =
     (case res_body of
        None \<Rightarrow> [Close_stream]
      | Some (chunks, ending) \<Rightarrow> read_loop parse model chunks ending)"

subsection \<open>The non-streaming path\<close>

text \<open>
  \<open>a + b\<close> on the values \<open>x || 0\<close> can be: a sum of numbers, or a concatenation when an
  operand is a string, an array or an object. \<open>tostr\<close> is the runtime's conversion of a
  value that is no string to a string.
\<close>

definition js_str :: "(json \<Rightarrow> string) \<Rightarrow> json \<Rightarrow> string" where
  "js_str tostr v = (case v of JString s \<Rightarrow> s | _ \<Rightarrow> tostr v)"

fun concatenates :: "json \<Rightarrow> bool" where
  "concatenates (JString s) = True"
| "concatenates (JArray xs) = True"
| "concatenates (JObject members) = True"
| "concatenates v = False"

fun to_number :: "json \<Rightarrow> rat" where
  "to_number (JNumber n) = n"
| "to_number (JBool b) = (if b then 1 else 0)"
| "to_number v = 0"

definition js_plus :: "(json \<Rightarrow> string) \<Rightarrow> json \<Rightarrow> json \<Rightarrow> json" where
  "js_plus tostr a b =
     (if concatenates a \<or> concatenates b then JString (js_str tostr a @ js_str tostr b)
      else JNumber (to_number a + to_number b))"

record openai_response =
  response_model :: "json option"
  message_content :: json
  response_finish_reason :: string
  prompt_tokens :: json
  completion_tokens :: json
  total_tokens :: json

definition openAIResponse ::
  "(json \<Rightarrow> string) \<Rightarrow> json option \<Rightarrow> json \<Rightarrow> js_error + openai_response"
where
  "openAIResponse tostr model data =
     (case get_prop data ''message'' of
        Inl e \<Rightarrow> Inl e
      | Inr message \<Rightarrow>
          Inr \<lparr> response_model = model,
                message_content = js_or (opt_chain message ''content'') (JString []),
                response_finish_reason = ''stop'',
                prompt_tokens = js_or (js_prop data ''prompt_eval_count'') (JNumber 0),
                completion_tokens = js_or (js_prop data ''eval_count'') (JNumber 0),
                total_tokens =
                  js_plus tostr (js_or (js_prop data ''prompt_eval_count'') (JNumber 0))
                                (js_or (js_prop data ''eval_count'') (JNumber 0)) \<rparr>)"

subsection \<open>The handler\<close>

text \<open>
  \<open>auth\<close> is imported from \<open>./auth\<close>; the handler reads the \<open>error\<close> flag of its result and
  returns the result as the body of the 401 response.
\<close>

record auth_result =
  error :: bool
  msg :: "string option"

record next_request =
  req_method :: string
  req_text :: string

record backend_response =
  res_ok :: bool
  res_status :: nat
  res_statusText :: string
  res_body :: "(string list \<times> stream_end) option"

datatype fetch_outcome = Fetch_rejected | Fetch_resolved backend_response

text \<open>\<open>res.text()\<close> and \<open>res.json()\<close> read the whole body; they throw when a read fails.\<close>

definition res_text :: "backend_response \<Rightarrow> js_error + string" where
  "res_text res =
     (case res_body res of
        None \<Rightarrow> Inr []
      | Some (chunks, End_of_stream) \<Rightarrow> Inr (concat chunks)
      | Some (chunks, Read_failure) \<Rightarrow> Inl NetworkError)"

definition res_json :: "(string \<Rightarrow> json option) \<Rightarrow> backend_response \<Rightarrow> js_error + json" where
  "res_json parse res =
     (case res_text res of
        Inl e \<Rightarrow> Inl e
      | Inr t \<Rightarrow> (case parse t of None \<Rightarrow> Inl SyntaxError | Some v \<Rightarrow> Inr v))"

text \<open>
  The side effects of one call, in order, and the response it returns. \<open>Fetch\<close> carries
  the URL, the method, the request whose JSON text is the body, and the
  \<open>Authorization\<close> header when an API key is configured.
\<close>

datatype side_effect =
    Console_log string
  | Console_error string
  | Set_timeout
  | Clear_timeout
  | Fetch string string ollama_request "string option"

datatype response_body =
    Auth_failure auth_result
  | Handler_error js_error
  | Backend_error nat string string
  | Completion openai_response
  | Event_stream "stream_effect list"

record http_response =
  resp_status :: nat
  resp_body :: response_body

definition internal_error :: "js_error \<Rightarrow> http_response" where
  "internal_error e = \<lparr> resp_status = 500, resp_body = Handler_error e \<rparr>"

definition authorization :: "server_config \<Rightarrow> string option" where
  "authorization serverConfig =
     (case cfg_ollamaApiKey serverConfig of
        None \<Rightarrow> None
      | Some k \<Rightarrow> if k = [] then None else Some (''Bearer '' @ k))"

definition requestOllama ::
  "(string \<Rightarrow> json option) \<Rightarrow> (json \<Rightarrow> string) \<Rightarrow> ollama_consts \<Rightarrow> server_config
     \<Rightarrow> auth_result \<Rightarrow> next_request \<Rightarrow> fetch_outcome \<Rightarrow> side_effect list \<times> http_response"
where
  "requestOllama parse tostr Ollama serverConfig authResult req backend =
     (if error authResult then
        ([], \<lparr> resp_status = 401, resp_body = Auth_failure authResult \<rparr>)
      else
        (case parse (req_text req) of
           None \<Rightarrow> ([Console_error ''[Ollama Error]''], internal_error SyntaxError)
         | Some requestBody \<Rightarrow>
             let fx1 = [Console_log ''[Ollama Request] Using base URL:'', Set_timeout] in
             (case ollamaRequest requestBody of
                Inl e \<Rightarrow> (fx1 @ [Console_error ''[Ollama Error]''], internal_error e)
              | Inr oreq \<Rightarrow>
                  let fx2 = fx1 @ [Console_log ''[Ollama Request] URL:'',
                                   Console_log ''[Ollama Request] Body:'',
                                   Fetch (fetchUrl Ollama serverConfig) (req_method req) oreq
                                         (authorization serverConfig)] in
                  (case backend of
                     Fetch_rejected \<Rightarrow>
                       (fx2 @ [Console_error ''[Ollama Error]''], internal_error NetworkError)
                   | Fetch_resolved res \<Rightarrow>
                       let fx3 = fx2 @ [Clear_timeout] in
                       if \<not> res_ok res then
                         (case res_text res of
                            Inl e \<Rightarrow>
                              (fx3 @ [Console_error ''[Ollama Error] Response status:'',
                                      Console_error ''[Ollama Error]''],
                               internal_error e)
                          | Inr errorText \<Rightarrow>
                              (fx3 @ [Console_error ''[Ollama Error] Response status:'',
                                      Console_error ''[Ollama Error] Response text:''],
                               \<lparr> resp_status = res_status res,
                                 resp_body = Backend_error (res_status res) (res_statusText res)
                                               errorText \<rparr>))
                       else if truthy (req_stream oreq) then
                         (fx3,
                          \<lparr> resp_status = 200,
                            resp_body = Event_stream
                              (stream_start parse (js_prop requestBody ''model'')
                                 (res_body res)) \<rparr>)
                       else
                         (case res_json parse res of
                            Inl e \<Rightarrow> (fx3 @ [Console_error ''[Ollama Error]''], internal_error e)
                          | Inr data \<Rightarrow>
                              (case openAIResponse tostr (js_prop requestBody ''model'') data of
                                 Inl e \<Rightarrow>
                                   (fx3 @ [Console_error ''[Ollama Error]''], internal_error e)
                               | Inr r \<Rightarrow>
                                   (fx3, \<lparr> resp_status = 200, resp_body = Completion r \<rparr>)))))))"

section \<open>The client-side consumer: \<open>OllamaApi\<close>\<close>

subsection \<open>The endpoint\<close>

text \<open>
  \<open>path\<close>. The access store, \<open>DEFAULT_API_HOST\<close>, \<open>ApiPath.Ollama\<close> and
  \<open>getClientConfig()?.isApp\<close> are declared outside the two source files: they are
  parameters.
\<close>

record access_store =
  useCustomConfig :: bool
  ollamaUrl :: string
  ollamaApiKey :: string

record client_consts =
  DEFAULT_API_HOST :: string
  ApiPath_Ollama :: string
  isApp :: bool

definition client_baseUrl :: "client_consts \<Rightarrow> access_store \<Rightarrow> string" where
  "client_baseUrl consts accessStore =
     (let b0 = (if useCustomConfig accessStore then ollamaUrl accessStore else []);
          b1 = (if length b0 = 0
                then DEFAULT_API_HOST consts @ (if isApp consts then ApiPath_Ollama consts else [])
                else b0);
          b2 = (if endsWith b1 ''/'' then slice_init b1 else b1);
          b3 = (if \<not> startsWith b2 ''http'' \<and> \<not> startsWith b2 (ApiPath_Ollama consts)
                then ''https://'' @ b2 else b2)
      in b3)"

definition path :: "client_consts \<Rightarrow> access_store \<Rightarrow> string \<Rightarrow> string" where
  "path consts accessStore p = client_baseUrl consts accessStore @ ''/'' @ p"

subsection \<open>The request payload\<close>

text \<open>
  \<open>modelConfig\<close> is the application's model configuration, whose numeric fields are
  numbers by their type. \<open>messages\<close> are the role and the text of each message.
\<close>

record model_config =
  cfg_model :: string
  cfg_temperature :: rat
  cfg_presence_penalty :: rat
  cfg_frequency_penalty :: rat
  cfg_top_p :: rat
  cfg_max_tokens :: rat

record request_payload =
  payload_messages :: "(string \<times> string) list"
  payload_stream :: "bool option"
  payload_model :: string
  payload_temperature :: rat
  payload_presence_penalty :: rat
  payload_frequency_penalty :: rat
  payload_top_p :: rat
  payload_max_tokens :: rat

definition requestPayload ::
  "(string \<times> string) list \<Rightarrow> bool option \<Rightarrow> model_config \<Rightarrow> request_payload"
where
  "requestPayload messages stream_flag modelConfig =
     \<lparr> payload_messages = messages,
       payload_stream = stream_flag,
       payload_model = cfg_model modelConfig,
       payload_temperature = cfg_temperature modelConfig,
       payload_presence_penalty = cfg_presence_penalty modelConfig,
       payload_frequency_penalty = cfg_frequency_penalty modelConfig,
       payload_top_p = cfg_top_p modelConfig,
       payload_max_tokens = max (cfg_max_tokens modelConfig) 1024 \<rparr>"

subsection \<open>The streaming consumer\<close>

text \<open>
  The state of one streaming exchange: the closure variables \<open>responseText\<close> and
  \<open>finished\<close>, and the calls made so far to the caller's callbacks and to the console.
\<close>

datatype callback =
    OnUpdate string json
  | OnFinish string
  | OnError
  | Console_parse_error

record chat_state =
  responseText :: string
  finished :: bool
  calls :: "callback list"

definition initial_state :: chat_state where
  "initial_state = \<lparr> responseText = [], finished = False, calls = [] \<rparr>"

definition finish :: "chat_state \<Rightarrow> chat_state" where
  "finish st =
     (if \<not> finished st
      then st\<lparr> calls := calls st @ [OnFinish (responseText st)], finished := True \<rparr>
      else st)"

text \<open>\<open>x.at(0)\<close>: arrays and strings have the method; calling it on another value throws.\<close>

fun at0 :: "json \<Rightarrow> js_error + json option" where
  "at0 (JArray xs) = Inr (case xs of [] \<Rightarrow> None | x # _ \<Rightarrow> Some x)"
| "at0 (JString s) = Inr (case s of [] \<Rightarrow> None | c # _ \<Rightarrow> Some (JString [c]))"
| "at0 v = Inl TypeError"

text \<open>\<open>json.choices?.at(0)?.delta?.content\<close>.\<close>

definition message_delta :: "json \<Rightarrow> js_error + json option" where
  "message_delta j =
     (case get_prop j ''choices'' of
        Inl e \<Rightarrow> Inl e
      | Inr None \<Rightarrow> Inr None
      | Inr (Some choices) \<Rightarrow>
          if choices = JNull then Inr None
          else (case at0 choices of
                  Inl e \<Rightarrow> Inl e
                | Inr first \<Rightarrow> Inr (opt_chain (opt_chain first ''delta'') ''content'')))"

definition onmessage ::
  "(string \<Rightarrow> json option) \<Rightarrow> (json \<Rightarrow> string) \<Rightarrow> chat_state \<Rightarrow> string \<Rightarrow> chat_state"
where
  "onmessage parse tostr st data =
     (if data = ''[DONE]'' \<or> finished st then finish st
      else
        (case parse data of
           None \<Rightarrow> st\<lparr> calls := calls st @ [Console_parse_error] \<rparr>
         | Some j \<Rightarrow>
             (case message_delta j of
                Inl e \<Rightarrow> st\<lparr> calls := calls st @ [Console_parse_error] \<rparr>
              | Inr None \<Rightarrow> st
              | Inr (Some delta) \<Rightarrow>
                  if truthy delta then
                    let t = responseText st @ js_str tostr delta
                    in st\<lparr> responseText := t, calls := calls st @ [OnUpdate t delta] \<rparr>
                  else st)))"

text \<open>
  \<open>onopen\<close>. \<open>Locale.Error.Unauthorized\<close> and \<open>prettyObject\<close> are declared outside the two
  source files: they are parameters.
\<close>

record open_response =
  open_ok :: bool
  open_status :: nat
  open_content_type :: "string option"
  open_text :: string

definition header_startsWith :: "string option \<Rightarrow> string \<Rightarrow> bool" where
  "header_startsWith h p = (case h of None \<Rightarrow> False | Some v \<Rightarrow> startsWith v p)"

fun join_with :: "string \<Rightarrow> string list \<Rightarrow> string" where
  "join_with sep [] = []"
| "join_with sep [x] = x"
| "join_with sep (x # y # ys) = x @ sep @ join_with sep (y # ys)"

definition onopen ::
  "(string \<Rightarrow> json option) \<Rightarrow> (json \<Rightarrow> string) \<Rightarrow> string \<Rightarrow> chat_state \<Rightarrow> open_response
     \<Rightarrow> chat_state"
where
  "onopen parse prettyObject unauthorized st res =
     (if header_startsWith (open_content_type res) ''text/plain''
      then finish (st\<lparr> responseText := open_text res \<rparr>)
      else if \<not> open_ok res
              \<or> \<not> header_startsWith (open_content_type res) ''text/event-stream''
              \<or> open_status res \<noteq> 200
      then
        let responseTexts = [responseText st] @ (if open_status res = 401 then [unauthorized] else []);
            extraInfo = (case parse (open_text res) of
                           None \<Rightarrow> open_text res
                         | Some resJson \<Rightarrow> prettyObject resJson)
        in finish (st\<lparr> responseText := join_with [CHR 0x0A, CHR 0x0A] (responseTexts @ [extraInfo]) \<rparr>)
      else st)"

definition onclose :: "chat_state \<Rightarrow> chat_state" where
  "onclose st = finish st"

definition onerror :: "chat_state \<Rightarrow> chat_state" where
  "onerror st = st\<lparr> calls := calls st @ [OnError] \<rparr>"

text \<open>\<open>controller.signal.onabort = finish\<close>.\<close>

definition onabort :: "chat_state \<Rightarrow> chat_state" where
  "onabort st = finish st"

text \<open>
  One exchange is a sequence of handler invocations by \<open>fetchEventSource\<close> and by the
  abort signal.
\<close>

datatype stream_event =
    Stream_open open_response
  | Stream_message string
  | Stream_close
  | Stream_error
  | Signal_abort

record client_env =
  env_parse :: "string \<Rightarrow> json option"
  env_tostr :: "json \<Rightarrow> string"
  env_prettyObject :: "json \<Rightarrow> string"
  env_unauthorized :: string

fun handle_event :: "client_env \<Rightarrow> chat_state \<Rightarrow> stream_event \<Rightarrow> chat_state" where
  "handle_event env st (Stream_open res) =
     onopen (env_parse env) (env_prettyObject env) (env_unauthorized env) st res"
| "handle_event env st (Stream_message data) = onmessage (env_parse env) (env_tostr env) st data"
| "handle_event env st Stream_close = onclose st"
| "handle_event env st Stream_error = onerror st"
| "handle_event env st Signal_abort = onabort st"

definition run_events :: "client_env \<Rightarrow> chat_state \<Rightarrow> stream_event list \<Rightarrow> chat_state" where
  "run_events env st events = foldl (handle_event env) st events"

section \<open>Observations and example inputs\<close>

text \<open>
  What a backend line holds, read as the backend's protocol defines a record:
  \<open>record_content\<close> is its \<open>message.content\<close> when the line is JSON text with such a
  string, and \<open>record_done\<close> is whether its completion flag is set.
\<close>

definition record_content :: "(string \<Rightarrow> json option) \<Rightarrow> string \<Rightarrow> string option" where
  "record_content parse line =
     (case parse line of
        None \<Rightarrow> None
      | Some data \<Rightarrow>
          (case opt_chain (js_prop data ''message'') ''content'' of
             Some (JString s) \<Rightarrow> Some s
           | _ \<Rightarrow> None))"

definition record_done :: "(string \<Rightarrow> json option) \<Rightarrow> string \<Rightarrow> bool" where
  "record_done parse line =
     (case parse line of None \<Rightarrow> False | Some data \<Rightarrow> truthy_opt (js_prop data ''done''))"

text \<open>The non-blank lines of a backend stream, in order, and the contents they hold.\<close>

definition stream_lines :: "string list \<Rightarrow> string list" where
  "stream_lines chunks = concat (map chunk_lines chunks)"

definition backend_contents :: "(string \<Rightarrow> json option) \<Rightarrow> string list \<Rightarrow> string list" where
  "backend_contents parse ls = List.map_filter (record_content parse) ls"

text \<open>
  What the relay emitted: the content fragments of the chunks it enqueued, their
  concatenation, the events other than console output, and the number of \<open>[DONE]\<close>
  lines.
\<close>

fun emitted_fragments :: "stream_effect list \<Rightarrow> json list" where
  "emitted_fragments [] = []"
| "emitted_fragments (Enqueue_data c # es) = delta_content c # emitted_fragments es"
| "emitted_fragments (e # es) = emitted_fragments es"

fun fragment_text :: "json \<Rightarrow> string" where
  "fragment_text (JString s) = s"
| "fragment_text v = []"

definition emitted_text :: "stream_effect list \<Rightarrow> string" where
  "emitted_text es = concat (map fragment_text (emitted_fragments es))"


definition sentinel_count :: "stream_effect list \<Rightarrow> nat" where
  "sentinel_count es = length (filter (\<lambda>e. e = Enqueue_done) es)"

text \<open>The member \<open>k\<close> of the JSON object an effect puts on the wire, if it puts one.\<close>

definition wire_member :: "string \<Rightarrow> stream_effect \<Rightarrow> json option" where
  "wire_member k e = (case e of Enqueue_data c \<Rightarrow> js_prop (chunk_json [] 0 c) k | _ \<Rightarrow> None)"

text \<open>
  What the client consumer delivered: the text of a message of the event stream (its
  \<open>choices[0].delta.content\<close> when that is a string), the fragments passed to
  \<open>onUpdate\<close>, and the calls of \<open>onFinish\<close> and \<open>onUpdate\<close>.
\<close>

definition message_text :: "(string \<Rightarrow> json option) \<Rightarrow> string \<Rightarrow> string option" where
  "message_text parse d =
     (case parse d of
        None \<Rightarrow> None
      | Some j \<Rightarrow> (case message_delta j of Inr (Some (JString s)) \<Rightarrow> Some s | _ \<Rightarrow> None))"

fun delivered_fragments :: "callback list \<Rightarrow> json list" where
  "delivered_fragments [] = []"
| "delivered_fragments (OnUpdate t delta # cs) = delta # delivered_fragments cs"
| "delivered_fragments (c # cs) = delivered_fragments cs"

definition delivered_text :: "callback list \<Rightarrow> string" where
  "delivered_text cs = concat (map fragment_text (delivered_fragments cs))"

fun is_finish :: "callback \<Rightarrow> bool" where
  "is_finish (OnFinish t) = True"
| "is_finish c = False"

fun is_update :: "callback \<Rightarrow> bool" where
  "is_update (OnUpdate t delta) = True"
| "is_update c = False"

definition finish_count :: "callback list \<Rightarrow> nat" where
  "finish_count cs = length (filter is_finish cs)"

text \<open>The \<open>onUpdate\<close> calls made after the first \<open>onFinish\<close>.\<close>

definition updates_after_finish :: "callback list \<Rightarrow> callback list" where
  "updates_after_finish cs = filter is_update (dropWhile (\<lambda>c. \<not> is_finish c) cs)"

text \<open>One trailing slash removed, as both translators do.\<close>

definition strip_slash :: "string \<Rightarrow> string" where
  "strip_slash s = (if endsWith s ''/'' then slice_init s else s)"

text \<open>Backend lines and event-stream messages used as concrete inputs.\<close>

definition nl :: string where
  "nl = [CHR 0x0A]"

definition hi_line :: string where
  "hi_line = ''{\"message\":{\"content\":\"Hi\"},\"done\":false}''"

definition there_line :: string where
  "there_line =
     ''{\"message\":{\"content\":\" there\"},\"done\":true,\"eval_count\":3,\"prompt_eval_count\":5}''"

definition hi_head :: string where
  "hi_head = ''{\"message\":{\"conte''"

definition hi_tail :: string where
  "hi_tail = ''nt\":\"Hi\"},\"done\":false}''"

definition bye_done_line :: string where
  "bye_done_line = ''{\"message\":{\"content\":\"Bye\"},\"done\":true}''"




definition done_first_chunk :: string where
  "done_first_chunk = bye_done_line @ nl @ hi_line @ nl"

definition hi_message :: string where
  "hi_message =
     ''{\"id\":\"chatcmpl-1730000000000\",\"object\":\"chat.completion.chunk\",\"created\":1730000000,\"model\":\"llama3\",\"choices\":[{\"index\":0,\"delta\":{\"content\":\"Hi\"},\"finish_reason\":null}]}''"

definition there_message :: string where
  "there_message =
     ''{\"id\":\"chatcmpl-1730000000001\",\"object\":\"chat.completion.chunk\",\"created\":1730000000,\"model\":\"llama3\",\"choices\":[{\"index\":0,\"delta\":{\"content\":\" there\"},\"finish_reason\":\"stop\"}]}''"

definition hi_chunk :: "json option \<Rightarrow> openai_chunk" where
  "hi_chunk model = \<lparr> chunk_model = model, delta_content = JString ''Hi'', finish_reason = None \<rparr>"

definition there_chunk :: "json option \<Rightarrow> openai_chunk" where
  "there_chunk model =
     \<lparr> chunk_model = model, delta_content = JString '' there'', finish_reason = Some ''stop'' \<rparr>"

definition bye_chunk :: "json option \<Rightarrow> openai_chunk" where
  "bye_chunk model =
     \<lparr> chunk_model = model, delta_content = JString ''Bye'', finish_reason = Some ''stop'' \<rparr>"

text \<open>The text a response of the handler delivers, on either path.\<close>

definition streamed_text :: "http_response \<Rightarrow> string option" where
  "streamed_text r =
     (case resp_body r of Event_stream es \<Rightarrow> Some (emitted_text es) | _ \<Rightarrow> None)"

definition completed_text :: "http_response \<Rightarrow> string option" where
  "completed_text r =
     (case resp_body r of
        Completion c \<Rightarrow> (case message_content c of JString s \<Rightarrow> Some s | _ \<Rightarrow> None)
      | _ \<Rightarrow> None)"

text \<open>
  The invariant of the consumer's state behind "finalize once": \<open>onFinish\<close> has been
  called exactly when \<open>finished\<close> is set, once, and no \<open>onUpdate\<close> has followed it.
\<close>

definition finalize_inv :: "chat_state \<Rightarrow> bool" where
  "finalize_inv st =
     (if finished st
      then finish_count (calls st) = 1 \<and> updates_after_finish (calls st) = []
      else finish_count (calls st) = 0)"

text \<open>
  Configurations, requests and responses used as concrete inputs. In \<open>example_env\<close> and
  in the calls of \<open>requestOllama\<close> on them, the conversions of values that are no strings
  are never consulted: every fragment and every counter there is a string or a number.
\<close>

definition example_server :: "ollama_consts \<times> server_config" where
  "example_server =
     (\<lparr> ExampleEndpoint = ''http://localhost:11434'', ChatPath = ''api/chat'' \<rparr>,
      \<lparr> cfg_ollamaUrl = Some ''ollama.internal:11434/'', cfg_ollamaApiKey = None \<rparr>)"

definition example_client :: "client_consts \<times> access_store" where
  "example_client =
     (\<lparr> DEFAULT_API_HOST = ''https://nextchat.example'', ApiPath_Ollama = ''/api/ollama'',
        isApp = False \<rparr>,
      \<lparr> useCustomConfig = True, ollamaUrl = ''ollama.internal:11434/'', ollamaApiKey = [] \<rparr>)"

definition http_named_host :: access_store where
  "http_named_host =
     \<lparr> useCustomConfig = True, ollamaUrl = ''httpbin.internal:11434'', ollamaApiKey = [] \<rparr>"

definition granted :: auth_result where
  "granted = \<lparr> error = False, msg = None \<rparr>"

definition refused :: auth_result where
  "refused = \<lparr> error = True, msg = Some ''no access code'' \<rparr>"

definition chat_request :: next_request where
  "chat_request = \<lparr> req_method = ''POST'', req_text = ''{\"model\":\"llama3\",\"messages\":[],\"max_tokens\":256}'' \<rparr>"

definition chat_request_body :: ollama_request where
  "chat_request_body =
     \<lparr> req_model = Some (JString ''llama3''), req_messages = Some (JArray []),
       req_stream = JBool True,
       req_options = \<lparr> opt_temperature = None, opt_top_p = None,
                       opt_num_predict = Some (JNumber 256) \<rparr> \<rparr>"

definition stream_request :: next_request where
  "stream_request =
     \<lparr> req_method = ''POST'', req_text = ''{\"model\":\"llama3\",\"messages\":[],\"stream\":true}'' \<rparr>"

definition plain_request :: next_request where
  "plain_request =
     \<lparr> req_method = ''POST'', req_text = ''{\"model\":\"llama3\",\"messages\":[],\"stream\":false}'' \<rparr>"

definition hi_there_body :: string where
  "hi_there_body =
     ''{\"message\":{\"content\":\"Hi there\"},\"done\":true,\"eval_count\":3,\"prompt_eval_count\":5}''"

definition bye_hi_body :: string where
  "bye_hi_body = ''{\"message\":{\"content\":\"ByeHi\"},\"done\":true}''"

definition ok_response :: "string list \<Rightarrow> backend_response" where
  "ok_response chunks =
     \<lparr> res_ok = True, res_status = 200, res_statusText = ''OK'',
       res_body = Some (chunks, End_of_stream) \<rparr>"

definition small_budget :: model_config where
  "small_budget =
     \<lparr> cfg_model = ''llama3'', cfg_temperature = 1 / 2, cfg_presence_penalty = 0,
       cfg_frequency_penalty = 0, cfg_top_p = 1, cfg_max_tokens = 500 \<rparr>"

definition large_budget :: model_config where
  "large_budget =
     \<lparr> cfg_model = ''llama3'', cfg_temperature = 1 / 2, cfg_presence_penalty = 0,
       cfg_frequency_penalty = 0, cfg_top_p = 1, cfg_max_tokens = 4000 \<rparr>"

definition sampling_body :: json where
  "sampling_body =
     JObject [(''model'', JString ''llama3''), (''temperature'', JNumber (7 / 10)),
              (''max_tokens'', JNumber 256)]"

definition event_stream_response :: open_response where
  "event_stream_response =
     \<lparr> open_ok = True, open_status = 200, open_content_type = Some ''text/event-stream'',
       open_text = [] \<rparr>"

definition example_env :: client_env where
  "example_env =
     \<lparr> env_parse = JSON_parse, env_tostr = (\<lambda>v. []), env_prettyObject = (\<lambda>v. []),
       env_unauthorized = ''Unauthorized'' \<rparr>"

section \<open>Properties\<close>

subsection \<open>The read loop, chunk by chunk\<close>

lemma read_loop_append:
  "read_loop parse model (chunks @ chunks') ending =
     concat (map (process_chunk parse model) chunks) @ read_loop parse model chunks' ending"
  by (induction chunks) simp_all


lemma read_loop_as_lines:
  "read_loop parse model chunks ending =
     concat (map (process_chunk parse model) chunks) @ read_loop parse model [] ending"
  by (induction chunks) simp_all



lemma convert_line_done:
  "convert_line parse model line = Some (c, d) \<Longrightarrow> d = record_done parse line"
  by (auto simp: convert_line_def record_done_def Let_def split: option.splits sum.splits)

lemma convert_line_record:
  assumes "record_content parse line = Some s"
  shows "convert_line parse model line =
           Some (\<lparr> chunk_model = model, delta_content = JString s,
                    finish_reason = (if record_done parse line then Some ''stop'' else None) \<rparr>,
                 record_done parse line)"
proof -
  from assms obtain data where p: "parse line = Some data"
    by (auto simp: record_content_def split: option.splits)
  with assms have c: "opt_chain (js_prop data ''message'') ''content'' = Some (JString s)"
    by (auto simp: record_content_def split: option.splits json.splits)
  then have "data \<noteq> JNull"
    by (auto simp: opt_chain_def)
  with p c show ?thesis
    by (simp add: convert_line_def get_prop_def record_done_def js_or_def)
qed

text \<open>Lines before the first record with the completion flag are processed one by one.\<close>

lemma process_lines_append:
  assumes "list_all (\<lambda>l. \<not> record_done parse l) pre"
  shows "process_lines parse model (pre @ rest) =
           process_lines parse model pre @ process_lines parse model rest"
  using assms
proof (induction pre)
  case Nil
  then show ?case by simp
next
  case (Cons l pre)
  show ?case
  proof (cases "convert_line parse model l")
    case None
    with Cons show ?thesis by simp
  next
    case (Some r)
    obtain c d where r: "r = (c, d)" by (cases r)
    with Some Cons.prems have "\<not> d"
      by (auto dest: convert_line_done)
    with Some r Cons show ?thesis by simp
  qed
qed

lemma list_all_butlast: "list_all P xs \<Longrightarrow> list_all P (butlast xs)"
  by (auto simp: list_all_iff dest: in_set_butlastD)

subsection \<open>Records through the relay\<close>

lemma emitted_fragments_append:
  "emitted_fragments (xs @ ys) = emitted_fragments xs @ emitted_fragments ys"
  by (induction xs rule: emitted_fragments.induct) simp_all

lemma concat_fragment_text: "concat (map fragment_text (map JString xs)) = concat xs"
  by (induction xs) simp_all

lemma process_lines_records:
  assumes "list_all (\<lambda>l. record_content parse l \<noteq> None) ls"
    and "list_all (\<lambda>l. \<not> record_done parse l) (butlast ls)"
  shows "emitted_fragments (process_lines parse model ls) =
           map JString (backend_contents parse ls)"
  using assms
proof (induction ls)
  case Nil
  then show ?case by (simp add: backend_contents_def)
next
  case (Cons l ls)
  then obtain s where s: "record_content parse l = Some s" by auto
  show ?case
  proof (cases ls)
    case Nil
    with s show ?thesis
      by (simp add: convert_line_record backend_contents_def)
  next
    case (Cons a as)
    with Cons.prems have "\<not> record_done parse l"
      and "list_all (\<lambda>l. \<not> record_done parse l) (butlast ls)" by auto
    with Cons.IH Cons.prems(1) s show ?thesis
      by (simp add: convert_line_record backend_contents_def)
  qed
qed

lemma read_loop_records:
  assumes "list_all (\<lambda>l. record_content parse l \<noteq> None) (stream_lines chunks)"
    and "list_all (\<lambda>l. \<not> record_done parse l) (butlast (stream_lines chunks))"
  shows "emitted_fragments (read_loop parse model chunks ending) =
           map JString (backend_contents parse (stream_lines chunks))"
  using assms
proof (induction chunks)
  case Nil
  then show ?case
    by (cases ending) (simp_all add: stream_lines_def backend_contents_def)
next
  case (Cons c cs)
  have split: "stream_lines (c # cs) = chunk_lines c @ stream_lines cs"
    by (simp add: stream_lines_def)
  from Cons.prems(1) have wc: "list_all (\<lambda>l. record_content parse l \<noteq> None) (chunk_lines c)"
    and wcs: "list_all (\<lambda>l. record_content parse l \<noteq> None) (stream_lines cs)"
    by (simp_all add: split)
  have "list_all (\<lambda>l. \<not> record_done parse l) (butlast (chunk_lines c))
        \<and> list_all (\<lambda>l. \<not> record_done parse l) (butlast (stream_lines cs))"
  proof (cases "stream_lines cs = []")
    case True
    with Cons.prems(2) show ?thesis by (simp add: split)
  next
    case False
    with Cons.prems(2) show ?thesis
      by (simp add: split butlast_append list_all_butlast)
  qed
  then have "emitted_fragments (process_lines parse model (chunk_lines c)) =
               map JString (backend_contents parse (chunk_lines c))"
    and "emitted_fragments (read_loop parse model cs ending) =
               map JString (backend_contents parse (stream_lines cs))"
    using wc wcs Cons.IH process_lines_records[of parse "chunk_lines c" model]
    by simp_all
  then show ?case
    by (simp add: split emitted_fragments_append process_chunk_def backend_contents_def
        List.map_filter_def)
qed

lemma read_loop_text:
  assumes "list_all (\<lambda>l. record_content parse l \<noteq> None) (stream_lines chunks)"
    and "list_all (\<lambda>l. \<not> record_done parse l) (butlast (stream_lines chunks))"
  shows "emitted_text (read_loop parse model chunks ending) =
           concat (backend_contents parse (stream_lines chunks))"
  by (simp only: emitted_text_def read_loop_records[OF assms] concat_fragment_text)

subsection \<open>Messages through the consumer\<close>

lemma delivered_fragments_append:
  "delivered_fragments (xs @ ys) = delivered_fragments xs @ delivered_fragments ys"
  by (induction xs rule: delivered_fragments.induct) simp_all

lemma run_events_messages:
  "run_events env st (map Stream_message ds) =
     foldl (onmessage (env_parse env) (env_tostr env)) st ds"
  by (induction ds arbitrary: st) (simp_all add: run_events_def)

lemma run_events_append:
  "run_events env st (xs @ ys) = run_events env (run_events env st xs) ys"
  by (simp add: run_events_def)

lemma run_events_Cons:
  "run_events env st (e # es) = run_events env (handle_event env st e) es"
  by (simp add: run_events_def)

lemma onmessage_text:
  assumes "message_text parse d = Some s" and "d \<noteq> ''[DONE]''" and "\<not> finished st"
  shows "onmessage parse tostr st d =
           (if s = [] then st
            else st\<lparr> responseText := responseText st @ s,
                     calls := calls st @ [OnUpdate (responseText st @ s) (JString s)] \<rparr>)"
  using assms
  by (auto simp: message_text_def onmessage_def js_str_def Let_def
      split: option.splits sum.splits json.splits)


lemma messages_text:
  assumes "list_all (\<lambda>d. d \<noteq> ''[DONE]'' \<and> message_text parse d \<noteq> None) ds"
    and "\<not> finished st"
  shows "responseText (foldl (onmessage parse tostr) st ds) =
           responseText st @ concat (List.map_filter (message_text parse) ds)
         \<and> delivered_text (calls (foldl (onmessage parse tostr) st ds)) =
             delivered_text (calls st) @ concat (List.map_filter (message_text parse) ds)
         \<and> \<not> finished (foldl (onmessage parse tostr) st ds)"
  using assms
proof (induction ds arbitrary: st)
  case Nil
  then show ?case by simp
next
  case (Cons d ds)
  then obtain s where s: "message_text parse d = Some s" and nd: "d \<noteq> ''[DONE]''" by auto
  let ?st = "onmessage parse tostr st d"
  from onmessage_text[OF s nd Cons.prems(2)]
  have st: "responseText ?st = responseText st @ s" "\<not> finished ?st"
    "delivered_text (calls ?st) = delivered_text (calls st) @ s"
    using Cons.prems(2)
    by (auto simp: delivered_text_def delivered_fragments_append)
  from Cons.prems(1) have "list_all (\<lambda>d. d \<noteq> ''[DONE]'' \<and> message_text parse d \<noteq> None) ds"
    by simp
  from Cons.IH[OF this st(2)] st s show ?case
    by simp
qed

subsection \<open>Content fragments of a well-formed stream\<close>

text \<open>
  C1, as amended. Take a backend stream in which every non-blank line of every chunk is
  a JSON record with a string \<open>message.content\<close>, and in which no record but the last
  one of the stream has its completion flag set. Then the content fragments the relay
  enqueues are the contents of the records, one by one and in order, so their
  concatenation is the concatenation of the contents; this holds however the stream
  ends. On the consumer's side, for messages that each hold a string
  \<open>choices[0].delta.content\<close>, the fragments passed to \<open>onUpdate\<close> and the accumulated
  \<open>responseText\<close> both concatenate to the concatenation of those strings.
\<close>

theorem well_formed_stream_fragments:
  "(list_all (\<lambda>l. record_content parse l \<noteq> None) (stream_lines chunks)
      \<and> list_all (\<lambda>l. \<not> record_done parse l) (butlast (stream_lines chunks))
    \<longrightarrow> emitted_fragments (read_loop parse model chunks ending) =
          map JString (backend_contents parse (stream_lines chunks))
        \<and> emitted_text (read_loop parse model chunks ending) =
          concat (backend_contents parse (stream_lines chunks)))
   \<and> (list_all (\<lambda>d. d \<noteq> ''[DONE]'' \<and> message_text (env_parse env) d \<noteq> None) ds
    \<longrightarrow> delivered_text (calls (run_events env initial_state (map Stream_message ds))) =
          concat (List.map_filter (message_text (env_parse env)) ds)
        \<and> responseText (run_events env initial_state (map Stream_message ds)) =
          concat (List.map_filter (message_text (env_parse env)) ds))"
proof (intro conjI impI)
  assume wf: "list_all (\<lambda>l. record_content parse l \<noteq> None) (stream_lines chunks)
      \<and> list_all (\<lambda>l. \<not> record_done parse l) (butlast (stream_lines chunks))"
  then show "emitted_fragments (read_loop parse model chunks ending) =
          map JString (backend_contents parse (stream_lines chunks))"
    by (simp add: read_loop_records)
  from wf show "emitted_text (read_loop parse model chunks ending) =
          concat (backend_contents parse (stream_lines chunks))"
    by (simp add: read_loop_text)
next
  assume wf: "list_all (\<lambda>d. d \<noteq> ''[DONE]'' \<and> message_text (env_parse env) d \<noteq> None) ds"
  have "\<not> finished initial_state" "responseText initial_state = []"
    "delivered_text (calls initial_state) = []"
    by (simp_all add: initial_state_def delivered_text_def)
  with messages_text[OF wf, of initial_state "env_tostr env"]
  show "delivered_text (calls (run_events env initial_state (map Stream_message ds))) =
          concat (List.map_filter (message_text (env_parse env)) ds)"
    and "responseText (run_events env initial_state (map Stream_message ds)) =
          concat (List.map_filter (message_text (env_parse env)) ds)"
    by (simp_all add: run_events_messages)
qed

text \<open>
  The theorem at the stream of the two lines \<open>hi_line\<close> and \<open>there_line\<close>, one per chunk,
  and at the two messages that carry the same fragments.
\<close>

theorem well_formed_stream_witness:
  "list_all (\<lambda>l. record_content JSON_parse l \<noteq> None) (stream_lines [hi_line @ nl, there_line @ nl])
   \<and> list_all (\<lambda>l. \<not> record_done JSON_parse l) (butlast (stream_lines [hi_line @ nl, there_line @ nl]))
   \<and> emitted_text (read_loop JSON_parse None [hi_line @ nl, there_line @ nl] End_of_stream) =
       ''Hi there''
   \<and> list_all (\<lambda>d. d \<noteq> ''[DONE]'' \<and> message_text JSON_parse d \<noteq> None) [hi_message, there_message]
   \<and> delivered_text
       (calls (run_events example_env initial_state (map Stream_message [hi_message, there_message]))) =
       ''Hi there''"
proof -
  let ?chunks = "[hi_line @ nl, there_line @ nl]"
  have h1: "list_all (\<lambda>l. record_content JSON_parse l \<noteq> None) (stream_lines ?chunks)"
    by code_simp
  have h2: "list_all (\<lambda>l. \<not> record_done JSON_parse l) (butlast (stream_lines ?chunks))"
    by code_simp
  have h3: "list_all (\<lambda>d. d \<noteq> ''[DONE]'' \<and> message_text JSON_parse d \<noteq> None)
              [hi_message, there_message]"
    by code_simp
  have c1: "concat (backend_contents JSON_parse (stream_lines ?chunks)) = ''Hi there''"
    by code_simp
  have c2: "concat (List.map_filter (message_text JSON_parse) [hi_message, there_message]) =
              ''Hi there''"
    by code_simp
  have e: "env_parse example_env = JSON_parse"
    by (simp add: example_env_def)
  from well_formed_stream_fragments
         [of JSON_parse ?chunks None End_of_stream example_env "[hi_message, there_message]"]
       h1 h2 h3 c1 c2 e
  show ?thesis by simp
qed

text \<open>
  C1 as stated fails where a record follows, in the same chunk, a record whose
  completion flag is set: both lines of the chunk are JSON records with a content, the
  contents concatenate to \<open>ByeHi\<close>, and the relay emits \<open>Bye\<close> only.
\<close>

theorem records_after_done_counterexample:
  "stream_lines [done_first_chunk] = [bye_done_line, hi_line]
   \<and> record_content JSON_parse bye_done_line = Some ''Bye''
   \<and> record_content JSON_parse hi_line = Some ''Hi''
   \<and> concat (backend_contents JSON_parse (stream_lines [done_first_chunk])) =
       ''ByeHi''
   \<and> emitted_text (read_loop JSON_parse None [done_first_chunk] End_of_stream) =
       ''Bye''"
  by code_simp

subsection \<open>A line that is not JSON\<close>






subsection \<open>Chunk boundaries and the end of the stream\<close>

text \<open>
  C9. The relay keeps nothing from one transport chunk to the next: the effects of a
  stream are the effects of its chunks, each split into lines and processed on its own.
  So a record cut in two by a chunk boundary is lost: the line \<open>hi_line\<close> holds the content
  \<open>Hi\<close> and is emitted when it arrives whole, but when it arrives as \<open>hi_head\<close> and
  \<open>hi_tail\<close> both halves fail to parse, each is logged and dropped, and nothing is
  enqueued.
\<close>

theorem relay_keeps_nothing_across_chunks:
  "read_loop parse model (chunks @ chunks') ending =
     concat (map (process_chunk parse model) chunks) @ read_loop parse model chunks' ending
   \<and> hi_head @ hi_tail = hi_line
   \<and> record_content JSON_parse hi_line = Some ''Hi''
   \<and> emitted_fragments (read_loop JSON_parse model [hi_line @ nl] End_of_stream) = [JString ''Hi'']
   \<and> JSON_parse hi_head = None
   \<and> JSON_parse hi_tail = None
   \<and> read_loop JSON_parse model [hi_head, hi_tail @ nl] End_of_stream =
       [Log_parse_error, Log_parse_error, Close_stream]
   \<and> emitted_fragments (read_loop JSON_parse model [hi_head, hi_tail @ nl] End_of_stream) = []"
proof -
  have whole: "hi_head @ hi_tail = hi_line"
    by code_simp
  have content: "record_content JSON_parse hi_line = Some ''Hi''"
    by code_simp
  have arrives_whole:
    "emitted_fragments (read_loop JSON_parse model [hi_line @ nl] End_of_stream) = [JString ''Hi'']"
    by code_simp
  have halves: "JSON_parse hi_head = None" "JSON_parse hi_tail = None"
    by code_simp+
  have arrives_split:
    "read_loop JSON_parse model [hi_head, hi_tail @ nl] End_of_stream =
       [Log_parse_error, Log_parse_error, Close_stream]"
    by code_simp
  have dropped:
    "emitted_fragments (read_loop JSON_parse model [hi_head, hi_tail @ nl] End_of_stream) = []"
    by code_simp
  show ?thesis
    by (intro conjI)
      (rule read_loop_append whole content arrives_whole halves arrives_split dropped)+
qed

text \<open>
  C3. The claim is that a record whose completion flag is set makes the relay emit the
  terminal marker, stop reading the backend stream and close its output. The relay does
  enqueue the \<open>[DONE]\<close> line, but its \<open>break\<close> leaves only the loop over the lines of the
  current chunk, and the loop over \<open>reader.read()\<close> goes on. On the stream of two
  chunks, \<open>bye_done_line\<close> then \<open>hi_line\<close>, the second chunk is read and its record is
  enqueued after the \<open>[DONE]\<close> line, and the output stream is closed only when the
  backend ends its body.
\<close>

theorem relay_reads_on_after_done:
  "record_done JSON_parse bye_done_line
   \<and> read_loop JSON_parse model [bye_done_line @ nl, hi_line @ nl] End_of_stream =
       [Enqueue_data (bye_chunk model), Enqueue_done, Enqueue_data (hi_chunk model), Close_stream]"
  by code_simp

subsection \<open>The streaming and the non-streaming path\<close>

lemma streaming_response:
  assumes "\<not> error authResult"
    and "parse (req_text req) = Some body" and "body \<noteq> JNull"
    and "truthy (js_nullish (js_prop body ''stream'') (JBool True))"
    and "res_ok res"
  shows "snd (requestOllama parse tostr Ollama serverConfig authResult req (Fetch_resolved res)) =
           \<lparr> resp_status = 200,
             resp_body = Event_stream (stream_start parse (js_prop body ''model'') (res_body res)) \<rparr>"
  using assms by (simp add: requestOllama_def ollamaRequest_def Let_def)

lemma record_content_response:
  assumes "record_content parse line = Some s"
  shows "\<exists>data. parse line = Some data
           \<and> openAIResponse tostr model data =
               Inr \<lparr> response_model = model, message_content = JString s,
                     response_finish_reason = ''stop'',
                     prompt_tokens = js_or (js_prop data ''prompt_eval_count'') (JNumber 0),
                     completion_tokens = js_or (js_prop data ''eval_count'') (JNumber 0),
                     total_tokens =
                       js_plus tostr (js_or (js_prop data ''prompt_eval_count'') (JNumber 0))
                                     (js_or (js_prop data ''eval_count'') (JNumber 0)) \<rparr>"
proof -
  from assms obtain data where p: "parse line = Some data"
    by (auto simp: record_content_def split: option.splits)
  with assms have c: "opt_chain (js_prop data ''message'') ''content'' = Some (JString s)"
    by (auto simp: record_content_def split: option.splits json.splits)
  then have "data \<noteq> JNull"
    by (auto simp: opt_chain_def)
  with p c show ?thesis
    by (simp add: openAIResponse_def get_prop_def js_or_def)
qed

lemma plain_response:
  assumes "\<not> error authResult"
    and "parse (req_text req) = Some body" and "body \<noteq> JNull"
    and "\<not> truthy (js_nullish (js_prop body ''stream'') (JBool True))"
    and "res_ok res" and "res_body res = Some (pieces, End_of_stream)"
    and "record_content parse (concat pieces) = Some s"
  shows "completed_text
           (snd (requestOllama parse tostr Ollama serverConfig authResult req (Fetch_resolved res))) =
         Some s"
proof -
  from record_content_response[where parse = parse and line = "concat pieces" and s = s
         and tostr = tostr and model = "js_prop body ''model''"] assms(7)
  obtain data r where "parse (concat pieces) = Some data"
    and "openAIResponse tostr (js_prop body ''model'') data = Inr r"
    and "message_content r = JString s"
    by auto
  with assms(1-6) show ?thesis
    by (simp add: requestOllama_def ollamaRequest_def Let_def res_json_def res_text_def
        completed_text_def)
qed

text \<open>
  C6, as amended. Let the handler answer two authorized requests, one that asks for a
  stream and one that does not, from backend responses that succeed. Let the streamed
  body be well formed as in C1: every non-blank line a record with a string content, and
  no record but the last with the completion flag set. Let the other body be one record
  whose content is the concatenation of the streamed contents. Then the fragments of the
  event stream concatenate to the very text the single response carries as its message
  content.
\<close>

theorem streaming_and_plain_paths_agree:
  "\<not> error authResult
   \<and> parse (req_text req_s) = Some body_s \<and> body_s \<noteq> JNull
   \<and> truthy (js_nullish (js_prop body_s ''stream'') (JBool True))
   \<and> parse (req_text req_p) = Some body_p \<and> body_p \<noteq> JNull
   \<and> \<not> truthy (js_nullish (js_prop body_p ''stream'') (JBool True))
   \<and> res_ok res_s \<and> res_body res_s = Some (chunks, ending)
   \<and> res_ok res_p \<and> res_body res_p = Some (pieces, End_of_stream)
   \<and> list_all (\<lambda>l. record_content parse l \<noteq> None) (stream_lines chunks)
   \<and> list_all (\<lambda>l. \<not> record_done parse l) (butlast (stream_lines chunks))
   \<and> record_content parse (concat pieces) =
       Some (concat (backend_contents parse (stream_lines chunks)))
   \<longrightarrow>
     streamed_text
       (snd (requestOllama parse tostr Ollama serverConfig authResult req_s (Fetch_resolved res_s))) =
       Some (concat (backend_contents parse (stream_lines chunks)))
   \<and> completed_text
       (snd (requestOllama parse tostr Ollama serverConfig authResult req_p (Fetch_resolved res_p))) =
       Some (concat (backend_contents parse (stream_lines chunks)))"
proof (intro impI, elim conjE, intro conjI)
  assume a: "\<not> error authResult"
    and s: "parse (req_text req_s) = Some body_s" "body_s \<noteq> JNull"
      "truthy (js_nullish (js_prop body_s ''stream'') (JBool True))"
    and p: "parse (req_text req_p) = Some body_p" "body_p \<noteq> JNull"
      "\<not> truthy (js_nullish (js_prop body_p ''stream'') (JBool True))"
    and rs: "res_ok res_s" "res_body res_s = Some (chunks, ending)"
    and rp: "res_ok res_p" "res_body res_p = Some (pieces, End_of_stream)"
    and wf: "list_all (\<lambda>l. record_content parse l \<noteq> None) (stream_lines chunks)"
      "list_all (\<lambda>l. \<not> record_done parse l) (butlast (stream_lines chunks))"
    and eq: "record_content parse (concat pieces) =
               Some (concat (backend_contents parse (stream_lines chunks)))"
  from streaming_response[where parse = parse and req = req_s and body = body_s
         and res = res_s and authResult = authResult and tostr = tostr and Ollama = Ollama
         and serverConfig = serverConfig]
       a s rs read_loop_text[OF wf]
  show "streamed_text
       (snd (requestOllama parse tostr Ollama serverConfig authResult req_s (Fetch_resolved res_s))) =
       Some (concat (backend_contents parse (stream_lines chunks)))"
    by (simp add: streamed_text_def stream_start_def)
  from plain_response[where parse = parse and req = req_p and body = body_p
         and res = res_p and authResult = authResult and pieces = pieces
         and s = "concat (backend_contents parse (stream_lines chunks))"
         and tostr = tostr and Ollama = Ollama and serverConfig = serverConfig]
       a p rp eq
  show "completed_text
       (snd (requestOllama parse tostr Ollama serverConfig authResult req_p (Fetch_resolved res_p))) =
       Some (concat (backend_contents parse (stream_lines chunks)))"
    by simp
qed

text \<open>
  The theorem at the stream of \<open>hi_line\<close> and \<open>there_line\<close> and the single body
  \<open>hi_there_body\<close>.
\<close>

theorem paths_agree_witness:
  "streamed_text
     (snd (requestOllama JSON_parse (\<lambda>v. []) (fst example_server) (snd example_server) granted
             stream_request (Fetch_resolved (ok_response [hi_line @ nl, there_line @ nl])))) =
     Some ''Hi there''
   \<and> completed_text
     (snd (requestOllama JSON_parse (\<lambda>v. []) (fst example_server) (snd example_server) granted
             plain_request (Fetch_resolved (ok_response [hi_there_body])))) =
     Some ''Hi there''"
proof -
  let ?chunks = "[hi_line @ nl, there_line @ nl]"
  have h: "\<not> error granted"
    "JSON_parse (req_text stream_request) =
       Some (JObject [(''model'', JString ''llama3''), (''messages'', JArray []), (''stream'', JBool True)])"
    "JSON_parse (req_text plain_request) =
       Some (JObject [(''model'', JString ''llama3''), (''messages'', JArray []), (''stream'', JBool False)])"
    "res_ok (ok_response ?chunks)" "res_body (ok_response ?chunks) = Some (?chunks, End_of_stream)"
    "res_ok (ok_response [hi_there_body])"
    "res_body (ok_response [hi_there_body]) = Some ([hi_there_body], End_of_stream)"
    "list_all (\<lambda>l. record_content JSON_parse l \<noteq> None) (stream_lines ?chunks)"
    "list_all (\<lambda>l. \<not> record_done JSON_parse l) (butlast (stream_lines ?chunks))"
    by code_simp+
  have c: "concat (backend_contents JSON_parse (stream_lines ?chunks)) = ''Hi there''"
    "record_content JSON_parse (concat [hi_there_body]) = Some ''Hi there''"
    by code_simp+
  from streaming_and_plain_paths_agree
         [of granted JSON_parse stream_request
             "JObject [(''model'', JString ''llama3''), (''messages'', JArray []), (''stream'', JBool True)]"
             plain_request
             "JObject [(''model'', JString ''llama3''), (''messages'', JArray []), (''stream'', JBool False)]"
             "ok_response ?chunks" ?chunks End_of_stream "ok_response [hi_there_body]"
             "[hi_there_body]" "\<lambda>v. []" "fst example_server" "snd example_server"]
       h c
  show ?thesis by (simp add: js_nullish_def)
qed

text \<open>
  C6 as stated fails on the stream of C1's counterexample: the contents of its two
  records concatenate to the content of \<open>bye_hi_body\<close>, the non-streaming path delivers
  \<open>ByeHi\<close>, and the streaming path delivers \<open>Bye\<close>.
\<close>

theorem paths_differ_counterexample:
  "stream_lines [done_first_chunk] = [bye_done_line, hi_line]
   \<and> backend_contents JSON_parse [bye_done_line, hi_line] = [''Bye'', ''Hi'']
   \<and> record_content JSON_parse bye_hi_body = Some ''ByeHi''
   \<and> streamed_text
       (snd (requestOllama JSON_parse (\<lambda>v. []) (fst example_server) (snd example_server) granted
               stream_request (Fetch_resolved (ok_response [done_first_chunk])))) =
       Some ''Bye''
   \<and> completed_text
       (snd (requestOllama JSON_parse (\<lambda>v. []) (fst example_server) (snd example_server) granted
               plain_request (Fetch_resolved (ok_response [bye_hi_body])))) =
       Some ''ByeHi''"
  by code_simp

subsection \<open>Finalize once\<close>

lemma no_finish_dropWhile:
  "finish_count cs = 0 \<Longrightarrow> dropWhile (\<lambda>c. \<not> is_finish c) (cs @ ds) = dropWhile (\<lambda>c. \<not> is_finish c) ds"
  by (induction cs) (auto simp: finish_count_def split: if_splits)

lemma some_finish_dropWhile:
  "finish_count cs = 1 \<Longrightarrow>
     dropWhile (\<lambda>c. \<not> is_finish c) (cs @ ds) = dropWhile (\<lambda>c. \<not> is_finish c) cs @ ds"
  by (induction cs) (auto simp: finish_count_def split: if_splits)

lemma no_finish_dropWhile_all:
  "finish_count cs = 0 \<Longrightarrow> dropWhile (\<lambda>c. \<not> is_finish c) cs = []"
  by (induction cs) (auto simp: finish_count_def split: if_splits)

lemma finish_count_append: "finish_count (cs @ ds) = finish_count cs + finish_count ds"
  by (simp add: finish_count_def)

lemma finalize_inv_finish: "finalize_inv st \<Longrightarrow> finalize_inv (finish st)"
  by (auto simp: finalize_inv_def finish_def finish_count_append updates_after_finish_def
      no_finish_dropWhile) (simp add: finish_count_def)

lemma finalize_inv_text: "finalize_inv (st\<lparr> responseText := t \<rparr>) = finalize_inv st"
  by (simp add: finalize_inv_def)

lemma finalize_inv_note:
  assumes "finalize_inv st" and "\<not> is_finish c" and "\<not> is_update c"
  shows "finalize_inv (st\<lparr> calls := calls st @ [c] \<rparr>)"
  using assms
  by (auto simp: finalize_inv_def finish_count_append updates_after_finish_def
      some_finish_dropWhile finish_count_def)

lemma finalize_inv_update:
  assumes "finalize_inv st" and "\<not> finished st"
  shows "finalize_inv (st\<lparr> responseText := t, calls := calls st @ [OnUpdate t' delta] \<rparr>)"
  using assms
  by (auto simp: finalize_inv_def finish_count_append finish_count_def)

lemma finalize_inv_onmessage:
  assumes "finalize_inv st"
  shows "finalize_inv (onmessage parse tostr st d)"
proof (cases "d = ''[DONE]'' \<or> finished st")
  case True
  with assms show ?thesis
    by (simp add: onmessage_def finalize_inv_finish)
next
  case False
  with assms show ?thesis
    by (auto simp: onmessage_def Let_def finalize_inv_note finalize_inv_update
        split: option.splits sum.splits)
qed

lemma finalize_inv_onopen:
  assumes "finalize_inv st"
  shows "finalize_inv (onopen parse pretty unauthorized st res)"
  using assms
  by (simp add: onopen_def Let_def finalize_inv_finish finalize_inv_text)

lemma finalize_inv_handle:
  assumes "finalize_inv st"
  shows "finalize_inv (handle_event env st e)"
  using assms
  by (cases e)
    (simp_all add: finalize_inv_onopen finalize_inv_onmessage onclose_def onabort_def
      onerror_def finalize_inv_finish finalize_inv_note)

lemma finalize_inv_run:
  assumes "finalize_inv st"
  shows "finalize_inv (run_events env st events)"
  using assms
  by (induction events arbitrary: st) (simp_all add: run_events_def finalize_inv_handle)

lemma finalize_inv_initial: "finalize_inv initial_state"
  by (simp add: finalize_inv_def initial_state_def finish_count_def)

lemma finalize_inv_conclusions:
  assumes "finalize_inv st"
  shows "finish_count (calls st) \<le> 1" and "updates_after_finish (calls st) = []"
    and "finished st \<Longrightarrow> finish_count (calls st) = 1"
  using assms
  by (auto simp: finalize_inv_def updates_after_finish_def no_finish_dropWhile_all
      split: if_splits)

lemma finish_idem: "finish (finish st) = finish st"
  by (simp add: finish_def)

lemma finished_finish: "finished (finish st)"
  by (simp add: finish_def)

lemma finished_onmessage: "finished st \<Longrightarrow> finished (onmessage parse tostr st d)"
  by (simp add: onmessage_def finish_def)

lemma finished_onopen: "finished st \<Longrightarrow> finished (onopen parse pretty unauthorized st res)"
  by (simp add: onopen_def Let_def finish_def)

lemma finished_handle: "finished st \<Longrightarrow> finished (handle_event env st e)"
  by (cases e)
    (simp_all add: finished_onopen finished_onmessage onclose_def onabort_def onerror_def
      finished_finish)

lemma finished_run: "finished st \<Longrightarrow> finished (run_events env st events)"
  by (induction events arbitrary: st) (simp_all add: run_events_def finished_handle)

lemma finishing_event:
  assumes "e \<in> {Stream_close, Signal_abort, Stream_message ''[DONE]''}"
  shows "finished (handle_event env st e)"
  using assms by (auto simp: onclose_def onabort_def onmessage_def finished_finish)

subsection \<open>The sentinel of the relay\<close>

lemma sentinel_count_append: "sentinel_count (xs @ ys) = sentinel_count xs + sentinel_count ys"
  by (simp add: sentinel_count_def)

lemma process_lines_no_done:
  assumes "list_all (\<lambda>l. \<not> record_done parse l) ls"
  shows "sentinel_count (process_lines parse model ls) = 0"
  using assms
proof (induction ls)
  case Nil
  then show ?case by (simp add: sentinel_count_def)
next
  case (Cons l ls)
  show ?case
  proof (cases "convert_line parse model l")
    case None
    with Cons show ?thesis by (simp add: sentinel_count_def)
  next
    case (Some r)
    obtain c d where r: "r = (c, d)" by (cases r)
    with Some Cons.prems have "\<not> d"
      by (auto dest: convert_line_done)
    with Some r Cons show ?thesis by (simp add: sentinel_count_def)
  qed
qed

lemma process_lines_done:
  assumes "record_done parse l"
  shows "\<exists>c. process_lines parse model (l # rest) = [Enqueue_data c, Enqueue_done]
           \<and> finish_reason c = Some ''stop''"
proof -
  from assms obtain data where "parse l = Some data" "truthy_opt (js_prop data ''done'')"
    by (auto simp: record_done_def split: option.splits)
  moreover from this have "data \<noteq> JNull"
    by (auto simp: truthy_opt_def)
  ultimately show ?thesis
    by (simp add: convert_line_def get_prop_def)
qed

lemma chunks_as_lines:
  assumes "list_all (\<lambda>l. \<not> record_done parse l) (butlast (stream_lines chunks))"
  shows "concat (map (process_chunk parse model) chunks) =
           process_lines parse model (stream_lines chunks)"
  using assms
proof (induction chunks)
  case Nil
  then show ?case by (simp add: stream_lines_def)
next
  case (Cons c cs)
  have split: "stream_lines (c # cs) = chunk_lines c @ stream_lines cs"
    by (simp add: stream_lines_def)
  show ?case
  proof (cases "stream_lines cs = []")
    case True
    then have "concat (map (process_chunk parse model) cs) = []"
      by (induction cs) (simp_all add: stream_lines_def process_chunk_def)
    with True show ?thesis
      by (simp add: split process_chunk_def)
  next
    case False
    with Cons.prems have a: "list_all (\<lambda>l. \<not> record_done parse l) (chunk_lines c)"
      and b: "list_all (\<lambda>l. \<not> record_done parse l) (butlast (stream_lines cs))"
      by (simp_all add: split butlast_append)
    from Cons.IH[OF b] process_lines_append[OF a] show ?thesis
      by (simp add: split process_chunk_def)
  qed
qed

text \<open>
  C2, as amended. On the consumer's side finalize runs at most once in an exchange:
  over every sequence of invocations of \<open>onopen\<close>, \<open>onmessage\<close>, \<open>onclose\<close>, \<open>onerror\<close> and
  the abort signal, \<open>onFinish\<close> is called at most once and no \<open>onUpdate\<close> follows it; a
  second \<open>finish\<close> changes nothing; and \<open>onFinish\<close> is called exactly once when the
  sequence holds a stream closure, an abort or the \<open>[DONE]\<close> message. On the relay's
  side the \<open>[DONE]\<close> line answers a record whose completion flag is set: a stream with no
  such record ends with no \<open>[DONE]\<close> line, however it ends, and a stream whose last
  record is the only one with the flag gets the line exactly once, right after that
  record's chunk, which carries the finish reason \<open>stop\<close>, and before the stream is
  closed or failed.
\<close>

theorem terminal_marker_once:
  "finish_count (calls (run_events env initial_state events)) \<le> 1
   \<and> updates_after_finish (calls (run_events env initial_state events)) = []
   \<and> finish (finish st) = finish st
   \<and> (e \<in> {Stream_close, Signal_abort, Stream_message ''[DONE]''} \<longrightarrow>
        finish_count (calls (run_events env initial_state (events @ e # events'))) = 1)
   \<and> (list_all (\<lambda>l. \<not> record_done parse l) (stream_lines chunks) \<longrightarrow>
        sentinel_count (read_loop parse model chunks ending) = 0)
   \<and> (stream_lines chunks = ls @ [l] \<and> list_all (\<lambda>l. \<not> record_done parse l) ls
        \<and> record_done parse l \<longrightarrow>
        (\<exists>es c. read_loop parse model chunks ending =
                  es @ [Enqueue_data c, Enqueue_done] @ read_loop parse model [] ending
               \<and> finish_reason c = Some ''stop'' \<and> sentinel_count es = 0)
        \<and> sentinel_count (read_loop parse model chunks ending) = 1)"
proof (intro conjI impI)
  have inv: "finalize_inv (run_events env initial_state events)"
    by (simp add: finalize_inv_run finalize_inv_initial)
  from inv show "finish_count (calls (run_events env initial_state events)) \<le> 1"
    by (rule finalize_inv_conclusions(1))
  from inv show "updates_after_finish (calls (run_events env initial_state events)) = []"
    by (rule finalize_inv_conclusions(2))
next
  show "finish (finish st) = finish st"
    by (rule finish_idem)
next
  assume e: "e \<in> {Stream_close, Signal_abort, Stream_message ''[DONE]''}"
  have "finished (run_events env initial_state (events @ e # events'))"
    by (simp add: run_events_append run_events_Cons finished_run finishing_event[OF e])
  moreover have "finalize_inv (run_events env initial_state (events @ e # events'))"
    by (simp add: finalize_inv_run finalize_inv_initial)
  ultimately show "finish_count (calls (run_events env initial_state (events @ e # events'))) = 1"
    by (simp add: finalize_inv_conclusions)
next
  assume nd: "list_all (\<lambda>l. \<not> record_done parse l) (stream_lines chunks)"
  then have "concat (map (process_chunk parse model) chunks) =
               process_lines parse model (stream_lines chunks)"
    by (simp add: chunks_as_lines list_all_butlast)
  with nd have "sentinel_count (concat (map (process_chunk parse model) chunks)) = 0"
    by (simp add: process_lines_no_done)
  moreover have "sentinel_count (read_loop parse model [] ending) = 0"
    by (cases ending) (simp_all add: sentinel_count_def)
  ultimately show "sentinel_count (read_loop parse model chunks ending) = 0"
    by (subst read_loop_as_lines) (simp add: sentinel_count_append)
next
  assume h: "stream_lines chunks = ls @ [l] \<and> list_all (\<lambda>l. \<not> record_done parse l) ls
               \<and> record_done parse l"
  then have "concat (map (process_chunk parse model) chunks) =
               process_lines parse model (ls @ [l])"
    using chunks_as_lines[of parse chunks model] by simp
  also from h have "\<dots> = process_lines parse model ls @ process_lines parse model [l]"
    by (simp add: process_lines_append)
  finally have eq: "read_loop parse model chunks ending =
      process_lines parse model ls @ process_lines parse model [l] @ read_loop parse model [] ending"
    by (subst read_loop_as_lines) simp
  from h process_lines_done[of parse l model "[]"]
  obtain c where c: "process_lines parse model [l] = [Enqueue_data c, Enqueue_done]"
    "finish_reason c = Some ''stop''"
    by auto
  from h have z: "sentinel_count (process_lines parse model ls) = 0"
    by (simp add: process_lines_no_done)
  from eq c z
  show "\<exists>es c. read_loop parse model chunks ending =
                  es @ [Enqueue_data c, Enqueue_done] @ read_loop parse model [] ending
               \<and> finish_reason c = Some ''stop'' \<and> sentinel_count es = 0"
    by auto
  have "sentinel_count (read_loop parse model [] ending) = 0"
    by (cases ending) (simp_all add: sentinel_count_def)
  with eq c z show "sentinel_count (read_loop parse model chunks ending) = 1"
    by (simp add: sentinel_count_append) (simp add: sentinel_count_def)
qed

text \<open>
  The theorem at an exchange closed after its first message, at the stream of
  \<open>hi_line\<close> alone, and at the stream of \<open>hi_line\<close> and \<open>there_line\<close>.
\<close>

theorem terminal_marker_witness:
  "Stream_close \<in> {Stream_close, Signal_abort, Stream_message ''[DONE]''}
   \<and> finish_count (calls (run_events example_env initial_state
        ([Stream_open event_stream_response, Stream_message hi_message]
           @ Stream_close # [Stream_message there_message, Signal_abort]))) = 1
   \<and> list_all (\<lambda>l. \<not> record_done JSON_parse l) (stream_lines [hi_line @ nl])
   \<and> sentinel_count (read_loop JSON_parse None [hi_line @ nl] End_of_stream) = 0
   \<and> stream_lines [hi_line @ nl, there_line @ nl] = [hi_line] @ [there_line]
   \<and> list_all (\<lambda>l. \<not> record_done JSON_parse l) [hi_line]
   \<and> record_done JSON_parse there_line
   \<and> sentinel_count (read_loop JSON_parse None [hi_line @ nl, there_line @ nl] End_of_stream) = 1"
proof -
  have h: "list_all (\<lambda>l. \<not> record_done JSON_parse l) (stream_lines [hi_line @ nl])"
    "stream_lines [hi_line @ nl, there_line @ nl] = [hi_line] @ [there_line]"
    "list_all (\<lambda>l. \<not> record_done JSON_parse l) [hi_line]"
    "record_done JSON_parse there_line"
    by code_simp+
  from terminal_marker_once
         [of example_env "[Stream_open event_stream_response, Stream_message hi_message]"
             initial_state Stream_close
             "[Stream_message there_message, Signal_abort]" JSON_parse "[hi_line @ nl]"
             None End_of_stream]
       terminal_marker_once
         [of example_env "[]" initial_state Stream_close "[]" JSON_parse
             "[hi_line @ nl, there_line @ nl]" None End_of_stream "[hi_line]" there_line]
       h
  show ?thesis by simp
qed

text \<open>
  C2 as stated fails: the backend stream of \<open>hi_line\<close> alone, closed or failed, gets no
  \<open>[DONE]\<close> line; and an exchange that is opened, delivers one message and ends by a
  transport error gets no \<open>onFinish\<close>.
\<close>

theorem no_terminal_marker_counterexample:
  "read_loop JSON_parse None [hi_line @ nl] End_of_stream =
     [Enqueue_data (hi_chunk None), Close_stream]
   \<and> sentinel_count (read_loop JSON_parse None [hi_line @ nl] End_of_stream) = 0
   \<and> sentinel_count (read_loop JSON_parse None [hi_line @ nl] Read_failure) = 0
   \<and> calls (run_events example_env initial_state
              [Stream_open event_stream_response, Stream_message hi_message, Stream_error]) =
       [OnUpdate ''Hi'' (JString ''Hi''), OnError]
   \<and> finish_count
       (calls (run_events example_env initial_state
                 [Stream_open event_stream_response, Stream_message hi_message, Stream_error])) = 0"
  by code_simp

subsection \<open>The exchange of two records\<close>

text \<open>
  C4, as amended. For the backend stream of the two lines \<open>hi_line\<close> and \<open>there_line\<close> the
  relay enqueues two content-delta chunks, with the fragments \<open>Hi\<close> and \<open> there\<close>; the
  first has no finish reason and the second has the finish reason \<open>stop\<close>; then it
  enqueues the \<open>[DONE]\<close> line and closes the stream. No chunk it puts on the wire has a
  \<open>usage\<close> member. The consumer, given an event stream that opens, delivers the two
  chunks and \<open>[DONE]\<close> as messages and closes, calls \<open>onUpdate\<close> with the cumulative
  texts \<open>Hi\<close> and \<open>Hi there\<close> and then \<open>onFinish\<close> once with \<open>Hi there\<close>. The usage counters 5, 3 and 8 are what the non-streaming path
  reports when the record of \<open>there_line\<close> is the whole body.
\<close>

theorem two_record_exchange:
  "read_loop JSON_parse model [hi_line @ nl, there_line @ nl] End_of_stream =
     [Enqueue_data \<lparr> chunk_model = model, delta_content = JString ''Hi'', finish_reason = None \<rparr>,
      Enqueue_data \<lparr> chunk_model = model, delta_content = JString '' there'',
                     finish_reason = Some ''stop'' \<rparr>,
      Enqueue_done, Close_stream]
   \<and> map (wire_member ''usage'')
         (read_loop JSON_parse model [hi_line @ nl, there_line @ nl] End_of_stream) =
       [None, None, None, None]
   \<and> JSON_parse hi_message =
       Some (chunk_json ''chatcmpl-1730000000000'' 1730000000
               \<lparr> chunk_model = Some (JString ''llama3''), delta_content = JString ''Hi'',
                 finish_reason = None \<rparr>)
   \<and> JSON_parse there_message =
       Some (chunk_json ''chatcmpl-1730000000001'' 1730000000
               \<lparr> chunk_model = Some (JString ''llama3''), delta_content = JString '' there'',
                 finish_reason = Some ''stop'' \<rparr>)
   \<and> calls (run_events
               \<lparr> env_parse = JSON_parse, env_tostr = tostr, env_prettyObject = pretty,
                 env_unauthorized = unauthorized \<rparr>
               initial_state
               [Stream_open event_stream_response, Stream_message hi_message,
                Stream_message there_message, Stream_message ''[DONE]'', Stream_close]) =
       [OnUpdate ''Hi'' (JString ''Hi''), OnUpdate ''Hi there'' (JString '' there''),
        OnFinish ''Hi there'']
   \<and> map_option (openAIResponse tostr model) (JSON_parse there_line) =
       Some (Inr \<lparr> response_model = model, message_content = JString '' there'',
                   response_finish_reason = ''stop'', prompt_tokens = JNumber 5,
                   completion_tokens = JNumber 3, total_tokens = JNumber 8 \<rparr>)"
proof -
  have relay:
    "read_loop JSON_parse model [hi_line @ nl, there_line @ nl] End_of_stream =
       [Enqueue_data \<lparr> chunk_model = model, delta_content = JString ''Hi'', finish_reason = None \<rparr>,
        Enqueue_data \<lparr> chunk_model = model, delta_content = JString '' there'',
                       finish_reason = Some ''stop'' \<rparr>,
        Enqueue_done, Close_stream]"
    by code_simp
  have no_usage:
    "map (wire_member ''usage'')
         (read_loop JSON_parse model [hi_line @ nl, there_line @ nl] End_of_stream) =
       [None, None, None, None]"
    unfolding relay by (cases model) (simp_all add: wire_member_def chunk_json_def)
  have wire_hi:
    "JSON_parse hi_message =
       Some (chunk_json ''chatcmpl-1730000000000'' 1730000000
               \<lparr> chunk_model = Some (JString ''llama3''), delta_content = JString ''Hi'',
                 finish_reason = None \<rparr>)"
    by code_simp
  have wire_there:
    "JSON_parse there_message =
       Some (chunk_json ''chatcmpl-1730000000001'' 1730000000
               \<lparr> chunk_model = Some (JString ''llama3''), delta_content = JString '' there'',
                 finish_reason = Some ''stop'' \<rparr>)"
    by code_simp
  have consumer:
    "calls (run_events
               \<lparr> env_parse = JSON_parse, env_tostr = tostr, env_prettyObject = pretty,
                 env_unauthorized = unauthorized \<rparr>
               initial_state
               [Stream_open event_stream_response, Stream_message hi_message,
                Stream_message there_message, Stream_message ''[DONE]'', Stream_close]) =
       [OnUpdate ''Hi'' (JString ''Hi''), OnUpdate ''Hi there'' (JString '' there''),
        OnFinish ''Hi there'']"
    by code_simp
  have usage:
    "map_option (openAIResponse tostr model) (JSON_parse there_line) =
       Some (Inr \<lparr> response_model = model, message_content = JString '' there'',
                   response_finish_reason = ''stop'', prompt_tokens = JNumber 5,
                   completion_tokens = JNumber 3, total_tokens = JNumber 8 \<rparr>)"
    by code_simp
  show ?thesis
    by (intro conjI) (rule relay no_usage wire_hi wire_there consumer usage)+
qed

text \<open>
  C4 as stated fails: the events the relay emits for the two lines are the two chunks
  and the bare \<open>[DONE]\<close> line. The finish reason \<open>stop\<close> is a field of the second
  content-delta chunk, not of a terminal event of its own, and none of the events
  reports usage.
\<close>

theorem streamed_usage_counterexample:
  "read_loop JSON_parse None [hi_line @ nl, there_line @ nl] End_of_stream =
     [Enqueue_data (hi_chunk None), Enqueue_data (there_chunk None), Enqueue_done, Close_stream]
   \<and> finish_reason (there_chunk None) = Some ''stop''
   \<and> map (wire_member ''usage'')
         (read_loop JSON_parse None [hi_line @ nl, there_line @ nl] End_of_stream) =
       [None, None, None, None]"
  by code_simp

subsection \<open>The outbound request\<close>

text \<open>
  C7, as amended. The server-side translation copies \<open>max_tokens\<close> to \<open>num_predict\<close>,
  \<open>temperature\<close> to \<open>temperature\<close> and \<open>top_p\<close> to \<open>top_p\<close>, whatever the body of the
  request holds there: a field the body leaves unset stays unset, the token budget
  included. The client-side payload carries the configured temperature and \<open>top_p\<close>
  unchanged and the token budget \<open>Math.max(max_tokens, 1024)\<close>: a configured budget of
  1024 or more is passed through unchanged, and a smaller one is raised to 1024.
\<close>

theorem request_translation:
  "(requestBody \<noteq> JNull \<longrightarrow>
      (\<exists>r. ollamaRequest requestBody = Inr r
          \<and> opt_num_predict (req_options r) = js_prop requestBody ''max_tokens''
          \<and> opt_temperature (req_options r) = js_prop requestBody ''temperature''
          \<and> opt_top_p (req_options r) = js_prop requestBody ''top_p''))
   \<and> payload_temperature (requestPayload messages stream_flag modelConfig) =
       cfg_temperature modelConfig
   \<and> payload_top_p (requestPayload messages stream_flag modelConfig) = cfg_top_p modelConfig
   \<and> (1024 \<le> cfg_max_tokens modelConfig \<longrightarrow>
        payload_max_tokens (requestPayload messages stream_flag modelConfig) =
        cfg_max_tokens modelConfig)
   \<and> (cfg_max_tokens modelConfig < 1024 \<longrightarrow>
        payload_max_tokens (requestPayload messages stream_flag modelConfig) = 1024)"
  by (simp add: ollamaRequest_def requestPayload_def)

text \<open>
  The theorem at a request body with a temperature and a budget, and at the
  configurations \<open>large_budget\<close> and \<open>small_budget\<close>.
\<close>

theorem request_translation_witness:
  "sampling_body \<noteq> JNull
   \<and> ollamaRequest sampling_body =
       Inr \<lparr> req_model = Some (JString ''llama3''), req_messages = None, req_stream = JBool True,
             req_options = \<lparr> opt_temperature = Some (JNumber (7 / 10)), opt_top_p = None,
                             opt_num_predict = Some (JNumber 256) \<rparr> \<rparr>
   \<and> 1024 \<le> cfg_max_tokens large_budget
   \<and> payload_max_tokens (requestPayload [] (Some True) large_budget) = 4000
   \<and> cfg_max_tokens small_budget < 1024
   \<and> payload_max_tokens (requestPayload [] (Some True) small_budget) = 1024"
proof -
  have body: "ollamaRequest sampling_body =
       Inr \<lparr> req_model = Some (JString ''llama3''), req_messages = None, req_stream = JBool True,
             req_options = \<lparr> opt_temperature = Some (JNumber (7 / 10)), opt_top_p = None,
                             opt_num_predict = Some (JNumber 256) \<rparr> \<rparr>"
    by (simp add: ollamaRequest_def sampling_body_def js_nullish_def)
  have budgets: "cfg_max_tokens large_budget = 4000" "cfg_max_tokens small_budget = 500"
    by (simp_all add: large_budget_def small_budget_def)
  from request_translation[of sampling_body "[]" "Some True" large_budget]
       request_translation[of sampling_body "[]" "Some True" small_budget]
       body budgets
  show ?thesis by (simp add: sampling_body_def)
qed

text \<open>
  C7 as stated fails on both sides: a budget of 500 that the caller configured is sent
  as 1024 by the client, and a request body without \<open>max_tokens\<close> gets no default from
  the server: \<open>num_predict\<close> stays unset.
\<close>

theorem token_budget_counterexample:
  "cfg_max_tokens small_budget = 500
   \<and> payload_max_tokens (requestPayload [] (Some True) small_budget) = 1024
   \<and> js_prop (JObject [(''model'', JString ''llama3'')]) ''max_tokens'' = None
   \<and> ollamaRequest (JObject [(''model'', JString ''llama3'')]) =
       Inr \<lparr> req_model = Some (JString ''llama3''), req_messages = None, req_stream = JBool True,
             req_options = \<lparr> opt_temperature = None, opt_top_p = None,
                             opt_num_predict = None \<rparr> \<rparr>"
  by (simp add: small_budget_def requestPayload_def ollamaRequest_def js_nullish_def)

subsection \<open>Authorization\<close>

text \<open>
  C8. When the result of the authorization check has its \<open>error\<close> flag set, the handler
  returns status 401 with that result as the body, and has no side effect: no console
  output, no timer, no \<open>fetch\<close>. In every call whose effects include a \<open>fetch\<close>, the
  check has succeeded. (The check itself, \<open>auth\<close>, is a function of another module; the
  handler's own effects are the ones counted.)
\<close>

theorem unauthorized_request_makes_no_backend_call:
  "(error authResult \<longrightarrow>
      requestOllama parse tostr Ollama serverConfig authResult req backend =
        ([], \<lparr> resp_status = 401, resp_body = Auth_failure authResult \<rparr>))
   \<and> (Fetch url method body bearer
          \<in> set (fst (requestOllama parse tostr Ollama serverConfig authResult req backend))
        \<longrightarrow> \<not> error authResult)"
  by (auto simp: requestOllama_def)

text \<open>
  The theorem at one refused and one granted request: the refused one is answered with
  401 and no effect, the granted one issues the \<open>fetch\<close>.
\<close>

theorem unauthorized_request_witness:
  "error refused
   \<and> requestOllama JSON_parse (\<lambda>v. []) (fst example_server) (snd example_server)
         refused chat_request Fetch_rejected
       = ([], \<lparr> resp_status = 401,
                resp_body = Auth_failure refused \<rparr>)
   \<and> Fetch ''http://ollama.internal:11434/api/chat'' ''POST'' chat_request_body None
         \<in> set (fst (requestOllama JSON_parse (\<lambda>v. []) (fst example_server) (snd example_server)
                        granted chat_request Fetch_rejected))
   \<and> \<not> error granted"
proof -
  have issued:
    "Fetch ''http://ollama.internal:11434/api/chat'' ''POST'' chat_request_body None
       \<in> set (fst (requestOllama JSON_parse (\<lambda>v. []) (fst example_server) (snd example_server)
                      granted chat_request Fetch_rejected))"
    by code_simp
  from unauthorized_request_makes_no_backend_call
         [of refused JSON_parse "\<lambda>v. []"
             "fst example_server" "snd example_server" chat_request Fetch_rejected]
       unauthorized_request_makes_no_backend_call
         [of granted JSON_parse "\<lambda>v. []"
             "fst example_server" "snd example_server" chat_request Fetch_rejected
             "''http://ollama.internal:11434/api/chat''" "''POST''" chat_request_body None]
       issued
  show ?thesis by (simp add: refused_def granted_def)
qed

subsection \<open>Endpoint URLs\<close>

lemma endsWith_slash: "endsWith (v @ ''/'') ''/''"
  by (simp add: endsWith_def)

lemma slice_init_snoc: "slice_init (v @ [c]) = v"
  by (simp add: slice_init_def)

lemma strip_slash_snoc: "strip_slash (v @ ''/'') = v"
  by (simp add: strip_slash_def endsWith_slash slice_init_snoc)

lemma strip_slash_none: "\<not> endsWith u ''/'' \<Longrightarrow> strip_slash u = u"
  by (simp add: strip_slash_def)

text \<open>
  C10, as amended. For a configured base URL \<open>u\<close> that is not empty, the server-side
  translator prefixes \<open>http://\<close> when \<open>u\<close> contains no \<open>://\<close>, then strips one trailing
  slash; the client-side translator strips one trailing slash, then prefixes
  \<open>https://\<close> when the result starts neither with \<open>http\<close> nor with the Ollama API path.
  Both join the base and the chat path with one \<open>/\<close>. Stripping removes the slash of a
  base that ends with one, and leaves any other base as it is.
\<close>

theorem endpoint_urls:
  "(cfg_ollamaUrl serverConfig = Some u \<and> u \<noteq> [] \<longrightarrow>
      fetchUrl Ollama serverConfig =
        strip_slash ((if includes_str u ''://'' then [] else ''http://'') @ u)
          @ ''/'' @ ChatPath Ollama)
   \<and> (useCustomConfig accessStore \<and> ollamaUrl accessStore = u' \<and> u' \<noteq> [] \<longrightarrow>
      path consts accessStore p =
        (if startsWith (strip_slash u') ''http''
            \<or> startsWith (strip_slash u') (ApiPath_Ollama consts)
         then [] else ''https://'')
          @ strip_slash u' @ ''/'' @ p)
   \<and> strip_slash (v @ ''/'') = v
   \<and> (\<not> endsWith b ''/'' \<longrightarrow> strip_slash b = b)"
  by (simp add: fetchUrl_def server_baseUrl_def path_def client_baseUrl_def strip_slash_snoc
      strip_slash_none) (simp add: strip_slash_def)

text \<open>
  The theorem at the base \<open>ollama.internal:11434/\<close>, configured on both sides, and at the
  same base without its slash.
\<close>

theorem endpoint_urls_witness:
  "cfg_ollamaUrl (snd example_server) = Some ''ollama.internal:11434/''
   \<and> fetchUrl (fst example_server) (snd example_server) = ''http://ollama.internal:11434/api/chat''
   \<and> useCustomConfig (snd example_client)
   \<and> ollamaUrl (snd example_client) = ''ollama.internal:11434/''
   \<and> path (fst example_client) (snd example_client) ''api/chat'' =
       ''https://ollama.internal:11434/api/chat''
   \<and> strip_slash (''ollama.internal:11434'' @ ''/'') = ''ollama.internal:11434''
   \<and> \<not> endsWith ''ollama.internal:11434'' ''/''
   \<and> strip_slash ''ollama.internal:11434'' = ''ollama.internal:11434''"
proof -
  let ?u = "''ollama.internal:11434/''" and ?v = "''ollama.internal:11434''"
  have h: "cfg_ollamaUrl (snd example_server) = Some ?u" "?u \<noteq> []"
    "useCustomConfig (snd example_client)" "ollamaUrl (snd example_client) = ?u"
    "\<not> endsWith ?v ''/''"
    by code_simp+
  note at_example =
    endpoint_urls
      [of "snd example_server" ?u "fst example_server" "snd example_client" ?u
          "fst example_client" "''api/chat''" ?v ?v]
  from at_example h
  have server: "fetchUrl (fst example_server) (snd example_server) =
      strip_slash ((if includes_str ?u ''://'' then [] else ''http://'') @ ?u)
        @ ''/'' @ ChatPath (fst example_server)"
    and client: "path (fst example_client) (snd example_client) ''api/chat'' =
      (if startsWith (strip_slash ?u) ''http''
          \<or> startsWith (strip_slash ?u) (ApiPath_Ollama (fst example_client))
       then [] else ''https://'')
        @ strip_slash ?u @ ''/'' @ ''api/chat''"
    and stripped: "strip_slash (?v @ ''/'') = ?v"
    and kept: "strip_slash ?v = ?v"
    by blast+
  have "strip_slash ((if includes_str ?u ''://'' then [] else ''http://'') @ ?u)
          @ ''/'' @ ChatPath (fst example_server) = ''http://ollama.internal:11434/api/chat''"
    by code_simp
  with server
  have url: "fetchUrl (fst example_server) (snd example_server) =
      ''http://ollama.internal:11434/api/chat''"
    by (rule trans)
  have "(if startsWith (strip_slash ?u) ''http''
            \<or> startsWith (strip_slash ?u) (ApiPath_Ollama (fst example_client))
         then [] else ''https://'')
          @ strip_slash ?u @ ''/'' @ ''api/chat'' = ''https://ollama.internal:11434/api/chat''"
    by code_simp
  with client
  have endpoint: "path (fst example_client) (snd example_client) ''api/chat'' =
      ''https://ollama.internal:11434/api/chat''"
    by (rule trans)
  show ?thesis
    by (intro conjI) (rule h(1) h(3) h(4) h(5) url endpoint stripped kept)+
qed

text \<open>
  C10 as stated fails on the client for a base with no scheme that starts with
  \<open>http\<close>: the host \<open>httpbin.internal:11434\<close> gets no \<open>https://\<close> prefix.
\<close>

theorem client_scheme_counterexample:
  "\<not> includes_str (ollamaUrl http_named_host) ''://''
   \<and> path (fst example_client) http_named_host ''api/chat'' = ''httpbin.internal:11434/api/chat''
   \<and> \<not> startsWith (path (fst example_client) http_named_host ''api/chat'') ''https://''"
  by code_simp

end
